theory Spec2Isabelle
  imports Main "HOL-Library.AList"
begin

section \<open>Python values and strings\<close>

text \<open>
  The service (\<^verbatim>\<open>src/main_bot.py\<close>) moves JSON-like Python values around: schema maps,
  column descriptors and response bodies are nested dicts and lists. A dict is an
  association list in insertion order; \<open>AList.update\<close> is Python's \<^verbatim>\<open>d[k] = v\<close> (replace
  in place, or append a new key) and \<open>AList.delete\<close> is \<^verbatim>\<open>del d[k]\<close>. \<open>PObj cls\<close> stands for
  a value of any other class (ObjectId, datetime, float, ...), of which only the class
  name is observed by the code.
\<close>

datatype pyval =
    PNone
  | PBool bool
  | PInt int
  | PStr string
  | PList "pyval list"
  | PDict "(string \<times> pyval) list"
  | PObj string

text \<open>\<^verbatim>\<open>type(value).__name__\<close>\<close>

fun type_name :: "pyval \<Rightarrow> string" where
  "type_name PNone = ''NoneType''"
| "type_name (PBool b) = ''bool''"
| "type_name (PInt i) = ''int''"
| "type_name (PStr s) = ''str''"
| "type_name (PList xs) = ''list''"
| "type_name (PDict d) = ''dict''"
| "type_name (PObj cls) = cls"

text \<open>\<^verbatim>\<open>str(n)\<close> for an integer, as the f-strings of the source format it.\<close>

definition digit_char :: "nat \<Rightarrow> char" where
  "digit_char d = char_of (48 + d)"

function str_nat :: "nat \<Rightarrow> string" where
  "str_nat n = (if n < 10 then [digit_char n] else str_nat (n div 10) @ [digit_char (n mod 10)])"
  by pat_completeness auto
termination
  by (relation "measure (\<lambda>n. n)") auto

declare str_nat.simps [simp del]

definition str_int :: "int \<Rightarrow> string" where
  "str_int i = (if i < 0 then CHR ''-'' # str_nat (nat (- i)) else str_nat (nat i))"

text \<open>
  A Python \<^verbatim>\<open>str\<close> is held as its UTF-8 bytes, so a character outside ASCII is two to
  four bytes.

  \<^verbatim>\<open>s.lower()\<close>: the ASCII capitals, and the Kelvin sign U+212A (bytes E2 84 AA), whose
  lower case is the ASCII letter k. Every other character outside ASCII has a lower
  case outside ASCII too and is left as it is here; so whenever the result here or the
  result in Python consists of ASCII and whitespace characters only, the two are the
  same string. The code only compares the result, once stripped, with ASCII names.
\<close>

definition lower_char :: "char \<Rightarrow> char" where
  "lower_char c =
     (let n = (of_char c :: nat) in if 65 \<le> n \<and> n \<le> 90 then char_of (n + 32) else c)"

fun lower :: "string \<Rightarrow> string" where
  "lower (a # b # c # s) =
     (if a = CHR 0xE2 \<and> b = CHR 0x84 \<and> c = CHR 0xAA then CHR ''k'' # lower s
      else lower_char a # lower (b # c # s))"
| "lower (a # s) = lower_char a # lower s"
| "lower [] = []"

text \<open>
  \<^verbatim>\<open>s.strip()\<close> removes the whitespace characters at both ends. These are the characters
  for which \<^verbatim>\<open>str.isspace\<close> holds: U+0009 to U+000D, U+001C to U+0020, U+0085, U+00A0,
  U+1680, U+2000 to U+200A, U+2028, U+2029, U+202F, U+205F and U+3000, here in UTF-8.
\<close>

definition whitespace :: "string list" where
  "whitespace =
     [[CHR 0x09], [CHR 0x0A], [CHR 0x0B], [CHR 0x0C], [CHR 0x0D],
      [CHR 0x1C], [CHR 0x1D], [CHR 0x1E], [CHR 0x1F], [CHR 0x20],
      [CHR 0xC2, CHR 0x85], [CHR 0xC2, CHR 0xA0],
      [CHR 0xE1, CHR 0x9A, CHR 0x80],
      [CHR 0xE2, CHR 0x80, CHR 0x80], [CHR 0xE2, CHR 0x80, CHR 0x81],
      [CHR 0xE2, CHR 0x80, CHR 0x82], [CHR 0xE2, CHR 0x80, CHR 0x83],
      [CHR 0xE2, CHR 0x80, CHR 0x84], [CHR 0xE2, CHR 0x80, CHR 0x85],
      [CHR 0xE2, CHR 0x80, CHR 0x86], [CHR 0xE2, CHR 0x80, CHR 0x87],
      [CHR 0xE2, CHR 0x80, CHR 0x88], [CHR 0xE2, CHR 0x80, CHR 0x89],
      [CHR 0xE2, CHR 0x80, CHR 0x8A],
      [CHR 0xE2, CHR 0x80, CHR 0xA8], [CHR 0xE2, CHR 0x80, CHR 0xA9],
      [CHR 0xE2, CHR 0x80, CHR 0xAF],
      [CHR 0xE2, CHR 0x81, CHR 0x9F],
      [CHR 0xE3, CHR 0x80, CHR 0x80]]"

text \<open>Removing, as long as there is one, a member of \<open>ws\<close> from the front of \<open>s\<close>.\<close>

function strip_front :: "string list \<Rightarrow> string \<Rightarrow> string" where
  "strip_front ws s =
     (case find (\<lambda>w. w \<noteq> [] \<and> take (length w) s = w) ws of
        None \<Rightarrow> s
      | Some w \<Rightarrow> strip_front ws (drop (length w) s))"
  by pat_completeness auto
termination
proof (relation "measure (\<lambda>(ws, s). length s)")
  fix ws :: "string list" and s w :: string
  assume "find (\<lambda>w. w \<noteq> [] \<and> take (length w) s = w) ws = Some w"
  then have w: "w \<noteq> []" "take (length w) s = w"
    by (auto simp add: find_Some_iff)
  have "length (take (length w) s) \<le> length s"
    by simp
  with w have "length w \<le> length s"
    by simp
  with w(1) show "((ws, drop (length w) s), (ws, s)) \<in> measure (\<lambda>(ws, s). length s)"
    by (cases w) simp_all
qed simp

declare strip_front.simps [simp del]

definition lstrip :: "string \<Rightarrow> string" where
  "lstrip s = strip_front whitespace s"

text \<open>
  At the end of the string the bytes are matched backwards. In UTF-8 the last bytes of
  a string are those of a whitespace character only if that character is its last.
\<close>

definition rstrip :: "string \<Rightarrow> string" where
  "rstrip s = rev (strip_front (map rev whitespace) (rev s))"

definition strip :: "string \<Rightarrow> string" where
  "strip s = rstrip (lstrip s)"

definition apostrophe :: string where
  "apostrophe = [CHR 0x27]"

section \<open>Data model\<close>

text \<open>The pydantic model \<^verbatim>\<open>DatabaseConnection\<close>; \<^verbatim>\<open>connection.dict()\<close> is the record itself.\<close>

record DatabaseConnection =
  host :: string
  port :: int
  username :: string
  password :: string
  schema :: string
  tableNames :: "string list"
  dbtype :: string

text \<open>
  What the code can raise. A driver call raises \<^verbatim>\<open>asyncpg.PostgresError\<close>,
  \<^verbatim>\<open>aiomysql.Error\<close> or some other \<^verbatim>\<open>Exception\<close> (an \<^verbatim>\<open>OSError\<close>, a pymongo error, ...);
  the payload is \<^verbatim>\<open>str(e)\<close>. The handlers raise \<^verbatim>\<open>HTTPException(status_code, detail)\<close>.
\<close>

datatype driver_error = PostgresError string | MySQLError string | OtherError string

fun str_driver_error :: "driver_error \<Rightarrow> string" where
  "str_driver_error (PostgresError m) = m"
| "str_driver_error (MySQLError m) = m"
| "str_driver_error (OtherError m) = m"

datatype exn = HTTPException nat string | Driver driver_error

text \<open>
  A row of \<^verbatim>\<open>information_schema.columns\<close> as the relational drivers return it. The
  MySQL query aliases \<^verbatim>\<open>COLUMN_DEFAULT\<close> to \<^verbatim>\<open>default_value\<close> and
  \<^verbatim>\<open>CHARACTER_MAXIMUM_LENGTH\<close> to \<^verbatim>\<open>max_length\<close>; the default is a text column, so a
  string or \<^verbatim>\<open>None\<close>.
\<close>

record column_row =
  column_name :: string
  data_type :: string
  is_nullable :: string
  column_default :: "string option"
  character_maximum_length :: "int option"

text \<open>
  The backends, as far as one call observes them: each driver call either raises or
  returns. Rows come in the order the backend sends them (the queries say
  \<^verbatim>\<open>ORDER BY ordinal_position\<close>).
\<close>

record pg_backend =
  pg_connect :: "DatabaseConnection \<Rightarrow> driver_error + unit"
  pg_fetch_schemata :: "driver_error + string list"
  pg_fetch_tables :: "string \<Rightarrow> driver_error + string list"
  pg_fetch_columns :: "string \<Rightarrow> string \<Rightarrow> driver_error + column_row list"

record mysql_backend =
  my_connect :: "DatabaseConnection \<Rightarrow> driver_error + unit"
  my_show_tables :: "driver_error + string list"
  my_fetch_columns :: "string \<Rightarrow> string \<Rightarrow> driver_error + column_row list"

record mongo_backend =
  mg_client :: "DatabaseConnection \<Rightarrow> driver_error + unit"
  mg_database :: "string \<Rightarrow> driver_error + unit"
  mg_server_info :: "driver_error + unit"
  mg_list_collection_names :: "driver_error + string list"
  mg_find_one :: "string \<Rightarrow> driver_error + (string \<times> pyval) list option"

record backends =
  postgresql :: pg_backend
  mysql :: mysql_backend
  mongodb :: mongo_backend

text \<open>
  The process state: the two global dicts, and the driver connections. \<open>conn_attempts\<close>
  counts every attempt to open a connection (it also names the next handle);
  \<open>open_conns\<close> holds the handles that are open.
\<close>

record world =
  db_connections :: "(string \<times> DatabaseConnection) list"
  session_schemas :: "(string \<times> pyval) list"
  open_conns :: "nat list"
  conn_attempts :: nat

definition initial_world :: world where
  "initial_world = \<lparr>db_connections = [], session_schemas = [], open_conns = [], conn_attempts = 0\<rparr>"

definition keys :: "('k \<times> 'v) list \<Rightarrow> 'k set" where
  "keys d = set (map fst d)"

text \<open>\<^verbatim>\<open>v[k]\<close> on a dict value, as a client reads a field of a response body.\<close>

definition item :: "pyval \<Rightarrow> string \<Rightarrow> pyval option" where
  "item v k = (case v of PDict d \<Rightarrow> map_of d k | _ \<Rightarrow> None)"

section \<open>Backend connectors\<close>

definition opt_int :: "int option \<Rightarrow> pyval" where
  "opt_int v = (case v of None \<Rightarrow> PNone | Some i \<Rightarrow> PInt i)"

text \<open>
  The dict built for each row. \<^verbatim>\<open>str(d) if d else None\<close> tests the truth value of the
  default: \<^verbatim>\<open>None\<close> and the empty string are both false.
\<close>

definition column_descriptor :: "column_row \<Rightarrow> pyval" where
  "column_descriptor col = PDict
     [(''column_name'', PStr (column_name col)),
      (''data_type'', PStr (data_type col)),
      (''is_nullable'', PStr (is_nullable col)),
      (''default_value'',
         (case column_default col of
            None \<Rightarrow> PNone
          | Some d \<Rightarrow> if d \<noteq> [] then PStr d else PNone)),
      (''max_length'', opt_int (character_maximum_length col))]"

definition make_session_id :: "DatabaseConnection \<Rightarrow> string" where
  "make_session_id connection =
     host connection @ '':'' @ str_int (port connection) @ '':'' @ schema connection"

definition store_session :: "DatabaseConnection \<Rightarrow> (string \<times> pyval) list \<Rightarrow> world \<Rightarrow> world" where
  "store_session connection table_info w =
     w\<lparr>db_connections := AList.update (make_session_id connection) connection (db_connections w),
       session_schemas := AList.update (make_session_id connection) (PDict table_info) (session_schemas w)\<rparr>"

definition success_body :: "DatabaseConnection \<Rightarrow> (string \<times> pyval) list \<Rightarrow> pyval" where
  "success_body connection table_info = PDict
     [(''status'', PStr ''success''),
      (''session_id'', PStr (make_session_id connection)),
      (''schema_info'', PDict table_info)]"

text \<open>
  Every call of a driver's connect function is an attempt; one that returns leaves an
  open connection, whose handle the connector keeps in \<^verbatim>\<open>conn\<close> (or \<^verbatim>\<open>client\<close>) and
  closes in its \<^verbatim>\<open>finally\<close> block. A connect that raises leaves \<^verbatim>\<open>conn = None\<close>.
\<close>

definition attempt :: "world \<Rightarrow> world" where
  "attempt w = w\<lparr>conn_attempts := Suc (conn_attempts w)\<rparr>"

definition open_conn :: "world \<Rightarrow> nat \<times> world" where
  "open_conn w = (conn_attempts w, (attempt w)\<lparr>open_conns := conn_attempts w # open_conns w\<rparr>)"

definition close_conn :: "nat \<Rightarrow> world \<Rightarrow> world" where
  "close_conn h w = w\<lparr>open_conns := remove1 h (open_conns w)\<rparr>"

subsection \<open>PostgreSQL\<close>

fun pg_columns_loop ::
  "pg_backend \<Rightarrow> string \<Rightarrow> string list \<Rightarrow> (string \<times> pyval) list \<Rightarrow> driver_error + (string \<times> pyval) list"
where
  "pg_columns_loop b schema_name [] tables = Inr tables"
| "pg_columns_loop b schema_name (table_name # rest) tables =
     (case pg_fetch_columns b schema_name table_name of
        Inl e \<Rightarrow> Inl e
      | Inr columns \<Rightarrow>
          pg_columns_loop b schema_name rest
            (AList.update table_name (PList (map column_descriptor columns)) tables))"

fun pg_schemas_loop ::
  "pg_backend \<Rightarrow> string list \<Rightarrow> (string \<times> pyval) list \<Rightarrow> driver_error + (string \<times> pyval) list"
where
  "pg_schemas_loop b [] table_info = Inr table_info"
| "pg_schemas_loop b (schema_name # rest) table_info =
     (case pg_fetch_tables b schema_name of
        Inl e \<Rightarrow> Inl e
      | Inr table_names \<Rightarrow>
          (case pg_columns_loop b schema_name table_names [] of
             Inl e \<Rightarrow> Inl e
           | Inr tables \<Rightarrow>
               pg_schemas_loop b rest (AList.update schema_name (PDict tables) table_info)))"

definition pg_table_info :: "pg_backend \<Rightarrow> driver_error + (string \<times> pyval) list" where
  "pg_table_info b =
     (case pg_fetch_schemata b of
        Inl e \<Rightarrow> Inl e
      | Inr schema_names \<Rightarrow> pg_schemas_loop b schema_names [])"

text \<open>\<^verbatim>\<open>except asyncpg.PostgresError\<close>: any other exception propagates.\<close>

fun pg_except :: "driver_error \<Rightarrow> exn" where
  "pg_except (PostgresError m) = HTTPException 500 (''PostgreSQL error: '' @ m)"
| "pg_except e = Driver e"

definition connect_postgresql ::
  "pg_backend \<Rightarrow> DatabaseConnection \<Rightarrow> world \<Rightarrow> (exn + pyval) \<times> world"
where
  "connect_postgresql b connection w =
     (case pg_connect b connection of
        Inl e \<Rightarrow> (Inl (pg_except e), attempt w)
      | Inr u \<Rightarrow>
          (let (conn, w1) = open_conn w in
           case pg_table_info b of
             Inl e \<Rightarrow> (Inl (pg_except e), close_conn conn w1)
           | Inr table_info \<Rightarrow>
               (Inr (success_body connection table_info),
                close_conn conn (store_session connection table_info w1))))"

subsection \<open>MySQL\<close>

fun my_columns_loop ::
  "mysql_backend \<Rightarrow> string \<Rightarrow> string list \<Rightarrow> (string \<times> pyval) list \<Rightarrow> driver_error + (string \<times> pyval) list"
where
  "my_columns_loop b db [] table_info = Inr table_info"
| "my_columns_loop b db (table_name # rest) table_info =
     (case my_fetch_columns b db table_name of
        Inl e \<Rightarrow> Inl e
      | Inr columns \<Rightarrow>
          my_columns_loop b db rest
            (AList.update table_name (PList (map column_descriptor columns)) table_info))"

definition my_table_info ::
  "mysql_backend \<Rightarrow> DatabaseConnection \<Rightarrow> driver_error + (string \<times> pyval) list"
where
  "my_table_info b connection =
     (case my_show_tables b of
        Inl e \<Rightarrow> Inl e
      | Inr table_names \<Rightarrow> my_columns_loop b (schema connection) table_names [])"

fun my_except :: "driver_error \<Rightarrow> exn" where
  "my_except (MySQLError m) = HTTPException 500 (''MySQL error: '' @ m)"
| "my_except e = Driver e"

definition connect_mysql ::
  "mysql_backend \<Rightarrow> DatabaseConnection \<Rightarrow> world \<Rightarrow> (exn + pyval) \<times> world"
where
  "connect_mysql b connection w =
     (case my_connect b connection of
        Inl e \<Rightarrow> (Inl (my_except e), attempt w)
      | Inr u \<Rightarrow>
          (let (conn, w1) = open_conn w in
           case my_table_info b connection of
             Inl e \<Rightarrow> (Inl (my_except e), close_conn conn w1)
           | Inr table_info \<Rightarrow>
               (Inr (success_body connection table_info),
                close_conn conn (store_session connection table_info w1))))"

subsection \<open>MongoDB\<close>

definition field_descriptor :: "string \<times> pyval \<Rightarrow> pyval" where
  "field_descriptor kv = PDict
     [(''column_name'', PStr (fst kv)),
      (''data_type'', PStr (type_name (snd kv))),
      (''is_nullable'', PStr ''YES''),
      (''default_value'', PNone),
      (''max_length'', PNone)]"

text \<open>\<^verbatim>\<open>if sample_doc:\<close> is false for \<^verbatim>\<open>None\<close> and for an empty document.\<close>

definition sample_columns :: "(string \<times> pyval) list option \<Rightarrow> pyval list" where
  "sample_columns sample_doc =
     (case sample_doc of
        None \<Rightarrow> []
      | Some doc \<Rightarrow> if doc \<noteq> [] then map field_descriptor doc else [])"

fun mg_collections_loop ::
  "mongo_backend \<Rightarrow> string list \<Rightarrow> (string \<times> pyval) list \<Rightarrow> driver_error + (string \<times> pyval) list"
where
  "mg_collections_loop b [] table_info = Inr table_info"
| "mg_collections_loop b (collection_name # rest) table_info =
     (case mg_find_one b collection_name of
        Inl e \<Rightarrow> Inl e
      | Inr sample_doc \<Rightarrow>
          mg_collections_loop b rest
            (AList.update collection_name (PList (sample_columns sample_doc)) table_info))"

definition mg_table_info ::
  "mongo_backend \<Rightarrow> DatabaseConnection \<Rightarrow> driver_error + (string \<times> pyval) list"
where
  "mg_table_info b connection =
     (case mg_database b (schema connection) of
        Inl e \<Rightarrow> Inl e
      | Inr u \<Rightarrow>
          (case mg_server_info b of
             Inl e \<Rightarrow> Inl e
           | Inr u' \<Rightarrow>
               (case mg_list_collection_names b of
                  Inl e \<Rightarrow> Inl e
                | Inr collection_names \<Rightarrow> mg_collections_loop b collection_names [])))"

text \<open>\<^verbatim>\<open>except Exception\<close>: every exception becomes an HTTP 500.\<close>

definition mg_except :: "driver_error \<Rightarrow> exn" where
  "mg_except e = HTTPException 500 (''MongoDB connection error: '' @ str_driver_error e)"

definition connect_mongodb ::
  "mongo_backend \<Rightarrow> DatabaseConnection \<Rightarrow> world \<Rightarrow> (exn + pyval) \<times> world"
where
  "connect_mongodb b connection w =
     (case mg_client b connection of
        Inl e \<Rightarrow> (Inl (mg_except e), attempt w)
      | Inr u \<Rightarrow>
          (let (client, w1) = open_conn w in
           case mg_table_info b connection of
             Inl e \<Rightarrow> (Inl (mg_except e), close_conn client w1)
           | Inr table_info \<Rightarrow>
               (Inr (success_body connection table_info),
                close_conn client (store_session connection table_info w1))))"

section \<open>Dispatch: POST /connectDB\<close>

definition unsupported_detail :: "DatabaseConnection \<Rightarrow> string" where
  "unsupported_detail connection =
     ''Unsupported database type: '' @ apostrophe @ dbtype connection @ apostrophe
       @ ''. Supported types are: postgresql, mysql, mongodb''"

text \<open>\<^verbatim>\<open>except HTTPException: raise\<close>, \<^verbatim>\<open>except Exception as e: raise HTTPException(500, ...)\<close>\<close>

fun reraise :: "exn + pyval \<Rightarrow> exn + pyval" where
  "reraise (Inl (HTTPException status_code detail)) = Inl (HTTPException status_code detail)"
| "reraise (Inl (Driver e)) =
     Inl (HTTPException 500 (''Database connection failed: '' @ str_driver_error e))"
| "reraise (Inr body) = Inr body"

definition connect_database ::
  "backends \<Rightarrow> DatabaseConnection \<Rightarrow> world \<Rightarrow> (exn + pyval) \<times> world"
where
  "connect_database bs connection w =
     (let dbtype = strip (lower (dbtype connection)) in
      if dbtype = ''postgresql'' then
        (let (r, w') = connect_postgresql (postgresql bs) connection w in (reraise r, w'))
      else if dbtype = ''mysql'' then
        (let (r, w') = connect_mysql (mysql bs) connection w in (reraise r, w'))
      else if dbtype = ''mongodb'' then
        (let (r, w') = connect_mongodb (mongodb bs) connection w in (reraise r, w'))
      else (Inl (HTTPException 400 (unsupported_detail connection)), w))"

text \<open>
  That a driver call made for a request raises, read off the backend alone. The calls
  are those the connector of the request's type makes as long as none has raised: the
  connect call, the liveness check, the enumeration of schemas, tables or collections,
  and the column query (or \<^verbatim>\<open>find_one\<close>) for each object enumerated.
\<close>

definition pg_call_fails :: "pg_backend \<Rightarrow> DatabaseConnection \<Rightarrow> bool" where
  "pg_call_fails b connection \<longleftrightarrow>
     isl (pg_connect b connection)
     \<or> (case pg_fetch_schemata b of
          Inl e \<Rightarrow> True
        | Inr schema_names \<Rightarrow>
            list_ex (\<lambda>schema_name.
              case pg_fetch_tables b schema_name of
                Inl e \<Rightarrow> True
              | Inr table_names \<Rightarrow>
                  list_ex (\<lambda>table_name. isl (pg_fetch_columns b schema_name table_name))
                    table_names)
              schema_names)"

definition my_call_fails :: "mysql_backend \<Rightarrow> DatabaseConnection \<Rightarrow> bool" where
  "my_call_fails b connection \<longleftrightarrow>
     isl (my_connect b connection)
     \<or> (case my_show_tables b of
          Inl e \<Rightarrow> True
        | Inr table_names \<Rightarrow>
            list_ex (\<lambda>table_name. isl (my_fetch_columns b (schema connection) table_name))
              table_names)"

definition mg_call_fails :: "mongo_backend \<Rightarrow> DatabaseConnection \<Rightarrow> bool" where
  "mg_call_fails b connection \<longleftrightarrow>
     isl (mg_client b connection)
     \<or> isl (mg_database b (schema connection))
     \<or> isl (mg_server_info b)
     \<or> (case mg_list_collection_names b of
          Inl e \<Rightarrow> True
        | Inr collection_names \<Rightarrow>
            list_ex (\<lambda>collection_name. isl (mg_find_one b collection_name)) collection_names)"

definition driver_call_fails :: "backends \<Rightarrow> DatabaseConnection \<Rightarrow> bool" where
  "driver_call_fails bs connection \<longleftrightarrow>
     (strip (lower (dbtype connection)) = ''postgresql'' \<and> pg_call_fails (postgresql bs) connection)
     \<or> (strip (lower (dbtype connection)) = ''mysql'' \<and> my_call_fails (mysql bs) connection)
     \<or> (strip (lower (dbtype connection)) = ''mongodb'' \<and> mg_call_fails (mongodb bs) connection)"

section \<open>Session registry endpoints\<close>

text \<open>
  \<^verbatim>\<open>POST /setsessionSchema\<close>. The handler is declared with
  \<^verbatim>\<open>schema: Dict[str, List[Dict[str, Any]]]\<close>, and FastAPI validates the JSON body of the
  request against that annotation before the handler runs: a body that is not an
  object whose values are arrays of objects is answered with status 422, and the
  handler is not called. So the handler takes a value of the annotated type.
\<close>

type_synonym column = "(string \<times> pyval) list"

type_synonym schema_map = "(string \<times> column list) list"

text \<open>A value of the annotated type as a Python value, and back.\<close>

definition schema_value :: "schema_map \<Rightarrow> pyval" where
  "schema_value s = PDict (map (\<lambda>kv. (fst kv, PList (map PDict (snd kv)))) s)"

fun dict_items :: "pyval \<Rightarrow> (string \<times> pyval) list" where
  "dict_items (PDict d) = d"
| "dict_items v = []"

fun list_items :: "pyval \<Rightarrow> pyval list" where
  "list_items (PList xs) = xs"
| "list_items v = []"

definition parse_schema :: "pyval \<Rightarrow> schema_map" where
  "parse_schema body = map (\<lambda>kv. (fst kv, map dict_items (list_items (snd kv)))) (dict_items body)"

text \<open>The validation of the body against the annotation.\<close>

definition is_dict :: "pyval \<Rightarrow> bool" where
  "is_dict v = (case v of PDict d \<Rightarrow> True | _ \<Rightarrow> False)"

definition is_dict_list :: "pyval \<Rightarrow> bool" where
  "is_dict_list v = (case v of PList xs \<Rightarrow> list_all is_dict xs | _ \<Rightarrow> False)"

definition is_schema_body :: "pyval \<Rightarrow> bool" where
  "is_schema_body body =
     (case body of PDict d \<Rightarrow> list_all (\<lambda>kv. is_dict_list (snd kv)) d | _ \<Rightarrow> False)"

definition missing_name_detail :: "nat \<Rightarrow> string \<Rightarrow> string" where
  "missing_name_detail idx table_name =
     ''Missing '' @ apostrophe @ ''column_name'' @ apostrophe @ '' in column at index ''
       @ str_nat idx @ '' in table '' @ table_name"

text \<open>
  The loop over \<^verbatim>\<open>enumerate(columns)\<close>, from index \<open>idx\<close> on. \<^verbatim>\<open>isinstance(column, dict)\<close>
  holds by the type of \<open>column\<close>, so the \<^verbatim>\<open>Invalid column definition\<close> branch has no case.
\<close>

fun check_columns :: "string \<Rightarrow> nat \<Rightarrow> column list \<Rightarrow> exn option" where
  "check_columns table_name idx [] = None"
| "check_columns table_name idx (column # rest) =
     (if ''column_name'' \<notin> keys column then
        Some (HTTPException 400 (missing_name_detail idx table_name))
      else check_columns table_name (Suc idx) rest)"

text \<open>
  The loop over \<^verbatim>\<open>schema.items()\<close>. \<^verbatim>\<open>isinstance(columns, list)\<close> holds by the type of
  \<open>columns\<close>, so the \<^verbatim>\<open>Invalid schema for table\<close> branch has no case.
\<close>

fun check_schema :: "schema_map \<Rightarrow> exn option" where
  "check_schema [] = None"
| "check_schema ((table_name, columns) # rest) =
     (case check_columns table_name 0 columns of
        Some e \<Rightarrow> Some e
      | None \<Rightarrow> check_schema rest)"

text \<open>
  The handler. Nothing in its body raises anything but \<^verbatim>\<open>HTTPException\<close>, which
  \<^verbatim>\<open>except HTTPException: raise\<close> passes on; the \<^verbatim>\<open>except Exception\<close> clause has no case.
\<close>

definition set_session_schema ::
  "string \<Rightarrow> schema_map \<Rightarrow> world \<Rightarrow> (exn + pyval) \<times> world"
where
  "set_session_schema session_id schema_arg w =
     (if session_id \<notin> keys (db_connections w) then
        (Inl (HTTPException 404 ''Session not found. Please connect to database first.''), w)
      else
        (case check_schema schema_arg of
           Some e \<Rightarrow> (Inl e, w)
         | None \<Rightarrow>
             (Inr (PDict
                [(''status'', PStr ''success''),
                 (''message'', PStr ''Session schema set successfully''),
                 (''session_id'', PStr session_id),
                 (''tables'', PList (map (\<lambda>kv. PStr (fst kv)) schema_arg))]),
              w\<lparr>session_schemas :=
                  AList.update session_id (schema_value schema_arg) (session_schemas w)\<rparr>)))"

text \<open>
  What a request to a route gets: the answer 422 of the framework when the body does
  not validate, or else what the handler returns or raises.
\<close>

datatype reply = Unprocessable | Handled "exn + pyval"

definition post_setsessionSchema :: "string \<Rightarrow> pyval \<Rightarrow> world \<Rightarrow> reply \<times> world" where
  "post_setsessionSchema session_id body w =
     (if is_schema_body body then
        (let (r, w') = set_session_schema session_id (parse_schema body) w in (Handled r, w'))
      else (Unprocessable, w))"

text \<open>
  The shape that the handler accepts, as a property of the submitted mapping: every
  column of every table has a \<^verbatim>\<open>column_name\<close> key.
\<close>

definition has_column_name :: "column \<Rightarrow> bool" where
  "has_column_name column \<longleftrightarrow> ''column_name'' \<in> keys column"

definition well_shaped :: "schema_map \<Rightarrow> bool" where
  "well_shaped s = list_all (\<lambda>kv. list_all has_column_name (snd kv)) s"

text \<open>
  What the detail of a rejection identifies: the first table of the mapping, in
  iteration order, that has a column without \<^verbatim>\<open>column_name\<close>, and the index of the first
  such column in that table's list.
\<close>

definition rejects :: "schema_map \<Rightarrow> string \<Rightarrow> bool" where
  "rejects s detail \<longleftrightarrow>
     (\<exists>pre table_name columns post idx.
        s = pre @ (table_name, columns) # post \<and> well_shaped pre
        \<and> idx < length columns
        \<and> list_all has_column_name (take idx columns)
        \<and> \<not> has_column_name (columns ! idx)
        \<and> detail = missing_name_detail idx table_name)"

definition session_detail :: "world \<Rightarrow> string \<times> DatabaseConnection \<Rightarrow> pyval" where
  "session_detail w kv = PDict
     [(''session_id'', PStr (fst kv)),
      (''dbtype'', PStr (dbtype (snd kv))),
      (''host'', PStr (host (snd kv))),
      (''port'', PInt (port (snd kv))),
      (''schema'', PStr (schema (snd kv))),
      (''has_schema_defined'', PBool (fst kv \<in> keys (session_schemas w)))]"

definition session_details :: "world \<Rightarrow> pyval list" where
  "session_details w = map (session_detail w) (db_connections w)"

definition get_active_sessions :: "world \<Rightarrow> pyval" where
  "get_active_sessions w = PDict
     [(''active_sessions'', PList (map (\<lambda>kv. PStr (fst kv)) (db_connections w))),
      (''session_details'', PList (session_details w))]"

definition get_session_schema :: "string \<Rightarrow> world \<Rightarrow> exn + pyval" where
  "get_session_schema session_id w =
     (case map_of (db_connections w) session_id of
        None \<Rightarrow> Inl (HTTPException 404 ''Session not found'')
      | Some details \<Rightarrow>
          (case map_of (session_schemas w) session_id of
             None \<Rightarrow> Inl (HTTPException 404 ''Session schema not defined'')
           | Some sch \<Rightarrow>
               Inr (PDict
                 [(''session_id'', PStr session_id),
                  (''schema'', sch),
                  (''connection_info'', PDict
                     [(''dbtype'', PStr (dbtype details)),
                      (''host'', PStr (host details)),
                      (''schema'', PStr (schema details))])])))"

definition delete_session :: "string \<Rightarrow> world \<Rightarrow> (exn + pyval) \<times> world" where
  "delete_session session_id w =
     (if session_id \<notin> keys (db_connections w) then
        (Inl (HTTPException 404 ''Session not found''), w)
      else
        (Inr (PDict
           [(''status'', PStr ''success''),
            (''message'', PStr (''Session '' @ session_id @ '' deleted successfully''))]),
         w\<lparr>db_connections := AList.delete session_id (db_connections w),
           session_schemas :=
             (if session_id \<in> keys (session_schemas w)
              then AList.delete session_id (session_schemas w)
              else session_schemas w)\<rparr>))"

section \<open>The HTTP surface\<close>

text \<open>
  The exception handlers of the application turn what a handler raises into the
  status code and body of the response; a returned body is sent with status 200.
\<close>

definition http_exception_handler :: "nat \<Rightarrow> string \<Rightarrow> nat \<times> pyval" where
  "http_exception_handler status_code detail =
     (status_code, PDict [(''error'', PStr detail), (''status_code'', PInt (int status_code))])"

definition general_exception_handler :: "driver_error \<Rightarrow> nat \<times> pyval" where
  "general_exception_handler e =
     (500, PDict [(''error'', PStr (''Internal server error: '' @ str_driver_error e)),
                  (''status_code'', PInt 500)])"

fun respond :: "exn + pyval \<Rightarrow> nat \<times> pyval" where
  "respond (Inr body) = (200, body)"
| "respond (Inl (HTTPException status_code detail)) = http_exception_handler status_code detail"
| "respond (Inl (Driver e)) = general_exception_handler e"

fun status_code :: "reply \<Rightarrow> nat" where
  "status_code Unprocessable = 422"
| "status_code (Handled r) = fst (respond r)"

text \<open>
  A request to one of the endpoints that touch the registry. A \<open>ConnectDB\<close> request
  carries a body that has validated as \<^verbatim>\<open>DatabaseConnection\<close>, and comes with the
  behaviour of the backends during that call; a \<open>SetSessionSchema\<close> request carries its
  JSON body.
\<close>

datatype request =
    ConnectDB backends DatabaseConnection
  | SetSessionSchema string pyval
  | GetSessions
  | GetSessionSchema string
  | DeleteSession string

fun handle :: "request \<Rightarrow> world \<Rightarrow> reply \<times> world" where
  "handle (ConnectDB bs connection) w =
     (let (r, w') = connect_database bs connection w in (Handled r, w'))"
| "handle (SetSessionSchema session_id body) w = post_setsessionSchema session_id body w"
| "handle GetSessions w = (Handled (Inr (get_active_sessions w)), w)"
| "handle (GetSessionSchema session_id) w = (Handled (get_session_schema session_id w), w)"
| "handle (DeleteSession session_id) w =
     (let (r, w') = delete_session session_id w in (Handled r, w'))"

fun serve :: "request list \<Rightarrow> world \<Rightarrow> world" where
  "serve [] w = w"
| "serve (r # rs) w = serve rs (snd (handle r w))"

fun is_connect :: "request \<Rightarrow> bool" where
  "is_connect (ConnectDB bs connection) = True"
| "is_connect r = False"

text \<open>The two dicts of the registry have the same keys.\<close>

definition keys_agree :: "world \<Rightarrow> bool" where
  "keys_agree w \<longleftrightarrow> keys (db_connections w) = keys (session_schemas w)"

section \<open>Fixtures\<close>

text \<open>Concrete requests and backends on which the theorems below are instantiated.\<close>

definition users_rows :: "column_row list" where
  "users_rows =
     [\<lparr>column_name = ''id'', data_type = ''integer'', is_nullable = ''NO'',
       column_default = Some ''42'', character_maximum_length = None\<rparr>,
      \<lparr>column_name = ''name'', data_type = ''character varying'', is_nullable = ''YES'',
       column_default = None, character_maximum_length = Some 50\<rparr>]"

definition demo_pg :: pg_backend where
  "demo_pg =
     \<lparr>pg_connect = (\<lambda>c. Inr ()),
      pg_fetch_schemata = Inr [''public''],
      pg_fetch_tables = (\<lambda>s. Inr [''users'']),
      pg_fetch_columns = (\<lambda>s t. Inr users_rows)\<rparr>"

definition label_row :: column_row where
  "label_row =
     \<lparr>column_name = ''label'', data_type = ''varchar'', is_nullable = ''YES'',
      column_default = Some [], character_maximum_length = Some 10\<rparr>"

definition demo_mysql :: mysql_backend where
  "demo_mysql =
     \<lparr>my_connect = (\<lambda>c. Inr ()),
      my_show_tables = Inr [''items''],
      my_fetch_columns = (\<lambda>db t. Inr [label_row])\<rparr>"

definition demo_mongo :: mongo_backend where
  "demo_mongo =
     \<lparr>mg_client = (\<lambda>c. Inr ()),
      mg_database = (\<lambda>n. Inr ()),
      mg_server_info = Inr (),
      mg_list_collection_names = Inr [''events'', ''drafts''],
      mg_find_one = (\<lambda>n. if n = ''events''
                         then Inr (Some [(''a'', PInt 1), (''b'', PStr ''x'')])
                         else Inr None)\<rparr>"

definition demo_backends :: backends where
  "demo_backends = \<lparr>postgresql = demo_pg, mysql = demo_mysql, mongodb = demo_mongo\<rparr>"

definition pg_request :: DatabaseConnection where
  "pg_request =
     \<lparr>host = ''localhost'', port = 5432, username = ''alice'', password = ''secret'',
      schema = ''mydatabase'', tableNames = [], dbtype = ''PostgreSQL''\<rparr>"

definition mysql_request :: DatabaseConnection where
  "mysql_request =
     \<lparr>host = ''localhost'', port = 5432, username = ''bob'', password = ''hunter2'',
      schema = ''mydatabase'', tableNames = [], dbtype = ''mysql''\<rparr>"

definition mongo_request :: DatabaseConnection where
  "mongo_request =
     \<lparr>host = ''localhost'', port = 27017, username = ''admin'', password = ''password'',
      schema = ''mydb'', tableNames = [], dbtype = ''mongodb ''\<rparr>"

definition oracle_request :: DatabaseConnection where
  "oracle_request =
     \<lparr>host = ''db.example'', port = 1521, username = ''scott'', password = ''tiger'',
      schema = ''orcl'', tableNames = [], dbtype = '' Oracle ''\<rparr>"

definition demo_pg_info :: "(string \<times> pyval) list" where
  "demo_pg_info =
     [(''public'', PDict
        [(''users'', PList
           [PDict [(''column_name'', PStr ''id''), (''data_type'', PStr ''integer''),
                   (''is_nullable'', PStr ''NO''), (''default_value'', PStr ''42''),
                   (''max_length'', PNone)],
            PDict [(''column_name'', PStr ''name''), (''data_type'', PStr ''character varying''),
                   (''is_nullable'', PStr ''YES''), (''default_value'', PNone),
                   (''max_length'', PInt 50)]])])]"

definition demo_mysql_info :: "(string \<times> pyval) list" where
  "demo_mysql_info =
     [(''items'', PList
        [PDict [(''column_name'', PStr ''label''), (''data_type'', PStr ''varchar''),
                (''is_nullable'', PStr ''YES''), (''default_value'', PNone),
                (''max_length'', PInt 10)]])]"

definition world1 :: world where
  "world1 =
     \<lparr>db_connections = [(''localhost:5432:mydatabase'', pg_request)],
      session_schemas = [(''localhost:5432:mydatabase'', PDict demo_pg_info)],
      open_conns = [], conn_attempts = 1\<rparr>"

definition world2 :: world where
  "world2 =
     \<lparr>db_connections = [(''localhost:5432:mydatabase'', mysql_request)],
      session_schemas = [(''localhost:5432:mydatabase'', PDict demo_mysql_info)],
      open_conns = [], conn_attempts = 2\<rparr>"

definition broken_pg :: pg_backend where
  "broken_pg = demo_pg\<lparr>pg_fetch_columns := (\<lambda>s t. Inl (PostgresError ''permission denied''))\<rparr>"

definition broken_backends :: backends where
  "broken_backends = demo_backends\<lparr>postgresql := broken_pg\<rparr>"

definition good_body :: pyval where
  "good_body = PDict
     [(''users'', PList
        [PDict [(''column_name'', PStr ''id''), (''data_type'', PStr ''integer''),
                (''is_primary_key'', PBool True)],
         PDict [(''column_name'', PStr ''email''), (''max_length'', PInt 100)]]),
      (''products'', PList [])]"

definition bad_body :: pyval where
  "bad_body = PDict
     [(''products'', PList []),
      (''users'', PList
        [PDict [(''column_name'', PStr ''id'')],
         PDict [(''data_type'', PStr ''integer'')],
         PDict []])]"

definition untyped_body :: pyval where
  "untyped_body = PDict [(''users'', PInt 5)]"

definition emptied :: world where
  "emptied = \<lparr>db_connections = [], session_schemas = [], open_conns = [], conn_attempts = 1\<rparr>"

definition demo_run :: "request list" where
  "demo_run =
     [ConnectDB demo_backends pg_request,
      SetSessionSchema ''localhost:5432:mydatabase'' good_body,
      ConnectDB broken_backends pg_request,
      ConnectDB demo_backends mongo_request,
      DeleteSession ''localhost:5432:mydatabase'',
      GetSessions]"

definition demo_mongo_info :: "(string \<times> pyval) list" where
  "demo_mongo_info =
     [(''events'', PList
        [PDict [(''column_name'', PStr ''a''), (''data_type'', PStr ''int''),
                (''is_nullable'', PStr ''YES''), (''default_value'', PNone),
                (''max_length'', PNone)],
         PDict [(''column_name'', PStr ''b''), (''data_type'', PStr ''str''),
                (''is_nullable'', PStr ''YES''), (''default_value'', PNone),
                (''max_length'', PNone)]]),
      (''drafts'', PList [])]"

definition mongo_world :: world where
  "mongo_world =
     \<lparr>db_connections = [(''localhost:27017:mydb'', mongo_request)],
      session_schemas = [(''localhost:27017:mydb'', PDict demo_mongo_info)],
      open_conns = [], conn_attempts = 1\<rparr>"

definition unreachable_mongo :: mongo_backend where
  "unreachable_mongo =
     demo_mongo\<lparr>mg_server_info := Inl (OtherError ''localhost:27017: connection refused'')\<rparr>"

section \<open>Evaluation of the string functions\<close>

lemmas str_eval =
  str_int_def str_nat.simps digit_char_def strip_def lstrip_def rstrip_def strip_front.simps
  whitespace_def lower_char_def char_of_def bit_Suc_0_iff apostrophe_def

section \<open>Outcomes of a connect call\<close>

lemma close_open [simp]:
  "close_conn (fst (open_conn w)) (snd (open_conn w)) = attempt w"
  by (simp add: close_conn_def open_conn_def attempt_def)

lemma close_store_open [simp]:
  "close_conn (fst (open_conn w)) (store_session c ti (snd (open_conn w))) = attempt (store_session c ti w)"
  by (simp add: close_conn_def open_conn_def attempt_def store_session_def)

lemma connect_postgresql_unfold:
  "connect_postgresql b c w =
     (case pg_connect b c of
        Inl e \<Rightarrow> (Inl (pg_except e), attempt w)
      | Inr u \<Rightarrow>
          (case pg_table_info b of
             Inl e \<Rightarrow> (Inl (pg_except e), attempt w)
           | Inr ti \<Rightarrow> (Inr (success_body c ti), attempt (store_session c ti w))))"
  by (simp add: connect_postgresql_def case_prod_unfold split: sum.splits)

lemma connect_mysql_unfold:
  "connect_mysql b c w =
     (case my_connect b c of
        Inl e \<Rightarrow> (Inl (my_except e), attempt w)
      | Inr u \<Rightarrow>
          (case my_table_info b c of
             Inl e \<Rightarrow> (Inl (my_except e), attempt w)
           | Inr ti \<Rightarrow> (Inr (success_body c ti), attempt (store_session c ti w))))"
  by (simp add: connect_mysql_def case_prod_unfold split: sum.splits)

lemma connect_mongodb_unfold:
  "connect_mongodb b c w =
     (case mg_client b c of
        Inl e \<Rightarrow> (Inl (mg_except e), attempt w)
      | Inr u \<Rightarrow>
          (case mg_table_info b c of
             Inl e \<Rightarrow> (Inl (mg_except e), attempt w)
           | Inr ti \<Rightarrow> (Inr (success_body c ti), attempt (store_session c ti w))))"
  by (simp add: connect_mongodb_def case_prod_unfold split: sum.splits)


lemma pg_outcome:
  "(\<exists>m. reraise (fst (connect_postgresql b c w)) = Inl (HTTPException 500 m)
        \<and> snd (connect_postgresql b c w) = attempt w)
   \<or> (\<exists>ti. reraise (fst (connect_postgresql b c w)) = Inr (success_body c ti)
        \<and> snd (connect_postgresql b c w) = attempt (store_session c ti w))"
proof -
  have "\<exists>m. reraise (Inl (pg_except e)) = Inl (HTTPException 500 m)" for e
    by (cases e) simp_all
  then show ?thesis
    by (auto simp add: connect_postgresql_unfold split: sum.splits)
qed

lemma my_outcome:
  "(\<exists>m. reraise (fst (connect_mysql b c w)) = Inl (HTTPException 500 m)
        \<and> snd (connect_mysql b c w) = attempt w)
   \<or> (\<exists>ti. reraise (fst (connect_mysql b c w)) = Inr (success_body c ti)
        \<and> snd (connect_mysql b c w) = attempt (store_session c ti w))"
proof -
  have "\<exists>m. reraise (Inl (my_except e)) = Inl (HTTPException 500 m)" for e
    by (cases e) simp_all
  then show ?thesis
    by (auto simp add: connect_mysql_unfold split: sum.splits)
qed

lemma mg_outcome:
  "(\<exists>m. reraise (fst (connect_mongodb b c w)) = Inl (HTTPException 500 m)
        \<and> snd (connect_mongodb b c w) = attempt w)
   \<or> (\<exists>ti. reraise (fst (connect_mongodb b c w)) = Inr (success_body c ti)
        \<and> snd (connect_mongodb b c w) = attempt (store_session c ti w))"
  by (auto simp add: connect_mongodb_unfold mg_except_def split: sum.splits)

text \<open>Every outcome of the dispatcher.\<close>

lemma connect_database_outcome:
  "(connect_database bs c w = (Inl (HTTPException 400 (unsupported_detail c)), w)
      \<and> strip (lower (dbtype c)) \<notin> {''postgresql'', ''mysql'', ''mongodb''})
   \<or> ((\<exists>m. connect_database bs c w = (Inl (HTTPException 500 m), attempt w))
      \<and> strip (lower (dbtype c)) \<in> {''postgresql'', ''mysql'', ''mongodb''})
   \<or> ((\<exists>ti. connect_database bs c w = (Inr (success_body c ti), attempt (store_session c ti w)))
      \<and> strip (lower (dbtype c)) \<in> {''postgresql'', ''mysql'', ''mongodb''})"
proof -
  consider (pg) "strip (lower (dbtype c)) = ''postgresql''"
    | (my) "strip (lower (dbtype c)) = ''mysql''"
    | (mg) "strip (lower (dbtype c)) = ''mongodb''"
    | (other) "strip (lower (dbtype c)) \<notin> {''postgresql'', ''mysql'', ''mongodb''}"
    by auto
  then show ?thesis
  proof cases
    case pg
    then have "connect_database bs c w =
        (reraise (fst (connect_postgresql (postgresql bs) c w)),
         snd (connect_postgresql (postgresql bs) c w))"
      by (simp add: connect_database_def case_prod_unfold Let_def)
    with pg pg_outcome [of "postgresql bs" c w] show ?thesis by auto
  next
    case my
    then have "connect_database bs c w =
        (reraise (fst (connect_mysql (mysql bs) c w)), snd (connect_mysql (mysql bs) c w))"
      by (simp add: connect_database_def case_prod_unfold Let_def)
    with my my_outcome [of "mysql bs" c w] show ?thesis by auto
  next
    case mg
    then have "connect_database bs c w =
        (reraise (fst (connect_mongodb (mongodb bs) c w)),
         snd (connect_mongodb (mongodb bs) c w))"
      by (simp add: connect_database_def case_prod_unfold Let_def)
    with mg mg_outcome [of "mongodb bs" c w] show ?thesis by auto
  next
    case other
    then show ?thesis by (simp add: connect_database_def)
  qed
qed

lemma connect_database_success:
  assumes "connect_database bs c w = (Inr body, w')"
  shows "\<exists>ti. body = success_body c ti \<and> w' = attempt (store_session c ti w)"
  using assms connect_database_outcome [of bs c w] by auto

section \<open>Dispatch\<close>

text \<open>
  C2. A \<^verbatim>\<open>connectDB\<close> request whose \<^verbatim>\<open>dbtype\<close>, lowercased and trimmed, is none of
  \<^verbatim>\<open>postgresql\<close>, \<^verbatim>\<open>mysql\<close>, \<^verbatim>\<open>mongodb\<close> raises \<^verbatim>\<open>HTTPException(400)\<close> whose detail quotes
  the type as submitted and lists the three supported types; the response has status
  400. The state is returned as it was: no connector ran, no connection was attempted
  (\<open>conn_attempts\<close>, \<open>open_conns\<close>) and both registry dicts are untouched.
\<close>

theorem connect_database_unsupported:
  assumes "strip (lower (dbtype connection)) \<notin> {''postgresql'', ''mysql'', ''mongodb''}"
  shows "connect_database bs connection w =
      (Inl (HTTPException 400
         (''Unsupported database type: '' @ apostrophe @ dbtype connection @ apostrophe
            @ ''. Supported types are: postgresql, mysql, mongodb'')), w)
    \<and> fst (respond (fst (connect_database bs connection w))) = 400"
  using assms
  by (simp add: connect_database_def unsupported_detail_def http_exception_handler_def)

text \<open>
  The trimming is Python's: a \<^verbatim>\<open>dbtype\<close> that ends in a no-break space U+00A0 or begins
  with an ideographic space U+3000 is a supported one.
\<close>

lemma strip_lower_unicode:
  "strip (lower (''MySQL'' @ [CHR 0xC2, CHR 0xA0])) = ''mysql''"
  "strip (lower ([CHR 0xE3, CHR 0x80, CHR 0x80, CHR 0x09] @ ''MongoDB'' @ [CHR 0x0A])) = ''mongodb''"
  by (simp_all add: str_eval)

theorem connect_database_unsupported_witness:
  "strip (lower (dbtype oracle_request)) = ''oracle''
   \<and> strip (lower (dbtype oracle_request)) \<notin> {''postgresql'', ''mysql'', ''mongodb''}
   \<and> connect_database demo_backends oracle_request initial_world =
      (Inl (HTTPException 400
         (''Unsupported database type: '' @ [CHR 0x27] @ '' Oracle '' @ [CHR 0x27]
            @ ''. Supported types are: postgresql, mysql, mongodb'')), initial_world)"
  using connect_database_unsupported [of oracle_request demo_backends initial_world]
  by (simp add: oracle_request_def str_eval)

section \<open>Session identifiers\<close>

lemmas connect_eval =
  connect_database_def connect_postgresql_def connect_mysql_def connect_mongodb_def
  pg_table_info_def my_table_info_def mg_table_info_def
  column_descriptor_def field_descriptor_def sample_columns_def opt_int_def
  make_session_id_def store_session_def success_body_def
  open_conn_def attempt_def close_conn_def mg_except_def
  initial_world_def

lemmas fixture_defs =
  demo_backends_def demo_pg_def demo_mysql_def demo_mongo_def users_rows_def label_row_def
  pg_request_def mysql_request_def mongo_request_def

lemma demo_pg_call:
  "connect_database demo_backends pg_request initial_world =
     (Inr (success_body pg_request demo_pg_info), world1)"
  by (simp add: connect_eval fixture_defs str_eval demo_pg_info_def world1_def)

lemma demo_mysql_call:
  "connect_database demo_backends mysql_request world1 =
     (Inr (success_body mysql_request demo_mysql_info), world2)"
  by (simp add: connect_eval fixture_defs str_eval demo_mysql_info_def world1_def world2_def)

lemma map_of_store_session:
  "map_of (db_connections (attempt (store_session c ti w))) (make_session_id c) = Some c"
  "map_of (session_schemas (attempt (store_session c ti w))) (make_session_id c) = Some (PDict ti)"
  by (simp_all add: attempt_def store_session_def update_conv')

lemma item_success_body:
  "item (success_body c ti) ''session_id'' = Some (PStr (make_session_id c))"
  "item (success_body c ti) ''schema_info'' = Some (PDict ti)"
  by (simp_all add: item_def success_body_def)

text \<open>
  C1. A successful \<^verbatim>\<open>connectDB\<close> call returns, and stores the session under, the id
  \<^verbatim>\<open>host:port:schema\<close> of its request: the connection parameters and the schema it
  returns as \<^verbatim>\<open>schema_info\<close> are the registry's entries for that id. A second
  successful call with the same host, port and schema (whatever its credentials,
  backend type or backend answers) gets the same id, and its parameters and schema
  replace the first call's entries; no entry is added.
\<close>

theorem connect_database_session_id:
  assumes "connect_database bs connection w = (Inr body, w')"
  shows "let sid = host connection @ '':'' @ str_int (port connection) @ '':'' @ schema connection in
     item body ''session_id'' = Some (PStr sid)
     \<and> map_of (db_connections w') sid = Some connection
     \<and> (\<exists>table_info. item body ''schema_info'' = Some (PDict table_info)
           \<and> map_of (session_schemas w') sid = Some (PDict table_info))
     \<and> (\<forall>bs2 connection2 body2 w2.
          connect_database bs2 connection2 w' = (Inr body2, w2)
          \<and> host connection2 = host connection \<and> port connection2 = port connection
          \<and> schema connection2 = schema connection \<longrightarrow>
            item body2 ''session_id'' = Some (PStr sid)
            \<and> map_of (db_connections w2) sid = Some connection2
            \<and> (\<exists>table_info2. item body2 ''schema_info'' = Some (PDict table_info2)
                  \<and> map_of (session_schemas w2) sid = Some (PDict table_info2))
            \<and> map fst (db_connections w2) = map fst (db_connections w')
            \<and> map fst (session_schemas w2) = map fst (session_schemas w'))"
proof -
  have sid: "make_session_id c = host c @ '':'' @ str_int (port c) @ '':'' @ schema c" for c
    by (simp add: make_session_id_def)
  from assms obtain ti where b: "body = success_body connection ti"
    and w': "w' = attempt (store_session connection ti w)"
    using connect_database_success by blast
  have first: "item body ''session_id'' = Some (PStr (make_session_id connection))"
    "map_of (db_connections w') (make_session_id connection) = Some connection"
    "item body ''schema_info'' = Some (PDict ti)"
    "map_of (session_schemas w') (make_session_id connection) = Some (PDict ti)"
    by (simp_all add: b w' item_success_body map_of_store_session)
  have second: "item body2 ''session_id'' = Some (PStr (make_session_id connection))
            \<and> map_of (db_connections w2) (make_session_id connection) = Some connection2
            \<and> (\<exists>table_info2. item body2 ''schema_info'' = Some (PDict table_info2)
                  \<and> map_of (session_schemas w2) (make_session_id connection) = Some (PDict table_info2))
            \<and> map fst (db_connections w2) = map fst (db_connections w')
            \<and> map fst (session_schemas w2) = map fst (session_schemas w')"
    if call: "connect_database bs2 connection2 w' = (Inr body2, w2)"
      and same: "host connection2 = host connection" "port connection2 = port connection"
        "schema connection2 = schema connection"
    for bs2 connection2 body2 w2
  proof -
    from call obtain ti2 where b2: "body2 = success_body connection2 ti2"
      and w2: "w2 = attempt (store_session connection2 ti2 w')"
      using connect_database_success by blast
    have eq: "make_session_id connection2 = make_session_id connection"
      using same by (simp add: make_session_id_def)
    have k1: "make_session_id connection \<in> set (map fst (db_connections w'))"
      using first(2) by (metis map_of_eq_None_iff option.distinct(1) set_map)
    have k2: "make_session_id connection \<in> set (map fst (session_schemas w'))"
      using first(4) by (metis map_of_eq_None_iff option.distinct(1) set_map)
    have "map fst (db_connections w2) = map fst (db_connections w')"
      using k1 by (simp add: w2 attempt_def store_session_def eq update_keys)
    moreover have "map fst (session_schemas w2) = map fst (session_schemas w')"
      using k2 by (simp add: w2 attempt_def store_session_def eq update_keys)
    moreover have "item body2 ''session_id'' = Some (PStr (make_session_id connection))"
      by (simp add: b2 item_success_body eq)
    moreover have "map_of (db_connections w2) (make_session_id connection) = Some connection2"
      using map_of_store_session(1) [of connection2 ti2 w'] by (simp add: w2 eq)
    moreover have "item body2 ''schema_info'' = Some (PDict ti2)"
      by (simp add: b2 item_success_body)
    moreover have "map_of (session_schemas w2) (make_session_id connection) = Some (PDict ti2)"
      using map_of_store_session(2) [of connection2 ti2 w'] by (simp add: w2 eq)
    ultimately show ?thesis by blast
  qed
  show ?thesis
    unfolding Let_def sid [symmetric] using first second by blast
qed

theorem connect_database_session_id_witness:
  "connect_database demo_backends pg_request initial_world =
     (Inr (success_body pg_request demo_pg_info), world1)
   \<and> connect_database demo_backends mysql_request world1 =
     (Inr (success_body mysql_request demo_mysql_info), world2)
   \<and> item (success_body pg_request demo_pg_info) ''session_id'' = Some (PStr ''localhost:5432:mydatabase'')
   \<and> item (success_body mysql_request demo_mysql_info) ''session_id'' = Some (PStr ''localhost:5432:mydatabase'')
   \<and> map_of (db_connections world1) ''localhost:5432:mydatabase'' = Some pg_request
   \<and> map_of (db_connections world2) ''localhost:5432:mydatabase'' = Some mysql_request
   \<and> map_of (session_schemas world2) ''localhost:5432:mydatabase'' = Some (PDict demo_mysql_info)
   \<and> username mysql_request \<noteq> username pg_request"
proof -
  have same: "host mysql_request = host pg_request" "port mysql_request = port pg_request"
    "schema mysql_request = schema pg_request"
    by (simp_all add: fixture_defs)
  have sid: "host pg_request @ '':'' @ str_int (port pg_request) @ '':'' @ schema pg_request
      = ''localhost:5432:mydatabase''"
    by (simp add: fixture_defs str_eval)
  note inst = connect_database_session_id [OF demo_pg_call, unfolded Let_def sid]
  from inst have a: "item (success_body pg_request demo_pg_info) ''session_id'' = Some (PStr ''localhost:5432:mydatabase'')"
    "map_of (db_connections world1) ''localhost:5432:mydatabase'' = Some pg_request"
    by blast+
  from inst demo_mysql_call same have b:
    "item (success_body mysql_request demo_mysql_info) ''session_id'' = Some (PStr ''localhost:5432:mydatabase'')"
    "map_of (db_connections world2) ''localhost:5432:mydatabase'' = Some mysql_request"
    "\<exists>table_info2. item (success_body mysql_request demo_mysql_info) ''schema_info'' = Some (PDict table_info2)
                  \<and> map_of (session_schemas world2) ''localhost:5432:mydatabase'' = Some (PDict table_info2)"
    by blast+
  from b(3) have c: "map_of (session_schemas world2) ''localhost:5432:mydatabase'' = Some (PDict demo_mysql_info)"
    by (simp add: item_success_body)
  show ?thesis
    using a b c demo_pg_call demo_mysql_call by (simp add: fixture_defs)
qed

section \<open>Failure policy and connection release\<close>

lemma pg_columns_loop_fails:
  assumes "list_ex (\<lambda>table_name. isl (pg_fetch_columns b schema_name table_name)) table_names"
  shows "isl (pg_columns_loop b schema_name table_names tables)"
  using assms
  by (induction table_names arbitrary: tables) (auto split: sum.splits)

lemma pg_schemas_loop_fails:
  assumes "list_ex (\<lambda>schema_name.
              case pg_fetch_tables b schema_name of
                Inl e \<Rightarrow> True
              | Inr table_names \<Rightarrow>
                  list_ex (\<lambda>table_name. isl (pg_fetch_columns b schema_name table_name))
                    table_names) schema_names"
  shows "isl (pg_schemas_loop b schema_names table_info)"
  using assms
proof (induction schema_names arbitrary: table_info)
  case Nil
  then show ?case by simp
next
  case (Cons schema_name rest)
  show ?case
  proof (cases "pg_fetch_tables b schema_name")
    case (Inl e)
    then show ?thesis by simp
  next
    case (Inr table_names)
    show ?thesis
    proof (cases "pg_columns_loop b schema_name table_names []")
      case (Inl e)
      with Inr show ?thesis by simp
    next
      case tables: (Inr tables)
      then have "\<not> list_ex (\<lambda>table_name. isl (pg_fetch_columns b schema_name table_name))
          table_names"
        using pg_columns_loop_fails [of b schema_name table_names "[]"] by auto
      with Cons.prems Inr have "list_ex (\<lambda>schema_name.
              case pg_fetch_tables b schema_name of
                Inl e \<Rightarrow> True
              | Inr table_names \<Rightarrow>
                  list_ex (\<lambda>table_name. isl (pg_fetch_columns b schema_name table_name))
                    table_names) rest"
        by simp
      with Cons.IH Inr tables show ?thesis by simp
    qed
  qed
qed

lemma my_columns_loop_fails:
  assumes "list_ex (\<lambda>table_name. isl (my_fetch_columns b db table_name)) table_names"
  shows "isl (my_columns_loop b db table_names table_info)"
  using assms
  by (induction table_names arbitrary: table_info) (auto split: sum.splits)

lemma mg_collections_loop_fails:
  assumes "list_ex (\<lambda>collection_name. isl (mg_find_one b collection_name)) collection_names"
  shows "isl (mg_collections_loop b collection_names table_info)"
  using assms
  by (induction collection_names arbitrary: table_info) (auto split: sum.splits)

lemma isl_reraise_except:
  "\<exists>m. reraise (Inl (pg_except e)) = Inl (HTTPException 500 m)"
  "\<exists>m. reraise (Inl (my_except e)) = Inl (HTTPException 500 m)"
  "\<exists>m. reraise (Inl (mg_except e)) = Inl (HTTPException 500 m)"
  by (cases e; simp add: mg_except_def)+

lemma pg_failure:
  assumes "pg_call_fails b c"
  shows "\<exists>m. reraise (fst (connect_postgresql b c w)) = Inl (HTTPException 500 m)
    \<and> snd (connect_postgresql b c w) = attempt w"
proof -
  from assms have "isl (pg_connect b c) \<or> isl (pg_table_info b)"
    using pg_schemas_loop_fails [of b _ "[]"]
    by (auto simp add: pg_call_fails_def pg_table_info_def split: sum.splits)
  then show ?thesis
    using isl_reraise_except(1)
    by (auto simp add: connect_postgresql_unfold split: sum.splits)
qed

lemma my_failure:
  assumes "my_call_fails b c"
  shows "\<exists>m. reraise (fst (connect_mysql b c w)) = Inl (HTTPException 500 m)
    \<and> snd (connect_mysql b c w) = attempt w"
proof -
  from assms have "isl (my_connect b c) \<or> isl (my_table_info b c)"
    using my_columns_loop_fails [of b "schema c" _ "[]"]
    by (auto simp add: my_call_fails_def my_table_info_def split: sum.splits)
  then show ?thesis
    using isl_reraise_except(2)
    by (auto simp add: connect_mysql_unfold split: sum.splits)
qed

lemma mg_failure:
  assumes "mg_call_fails b c"
  shows "\<exists>m. reraise (fst (connect_mongodb b c w)) = Inl (HTTPException 500 m)
    \<and> snd (connect_mongodb b c w) = attempt w"
proof -
  from assms have "isl (mg_client b c) \<or> isl (mg_table_info b c)"
    using mg_collections_loop_fails [of b _ "[]"]
    by (auto simp add: mg_call_fails_def mg_table_info_def split: sum.splits)
  then show ?thesis
    using isl_reraise_except(3)
    by (auto simp add: connect_mongodb_unfold split: sum.splits)
qed

text \<open>
  C7. When a driver call made for a \<^verbatim>\<open>connectDB\<close> request of a supported type raises
  (the connect call, the liveness check, an enumeration, or the column retrieval of any
  enumerated object), the call raises one \<^verbatim>\<open>HTTPException(500)\<close>, and both registry dicts
  are as they were before the call: nothing of the partial introspection is stored.
\<close>

theorem connect_database_backend_error:
  assumes "driver_call_fails bs connection"
  shows "strip (lower (dbtype connection)) \<in> {''postgresql'', ''mysql'', ''mongodb''}
    \<and> (\<exists>detail. fst (connect_database bs connection w) = Inl (HTTPException 500 detail))
    \<and> db_connections (snd (connect_database bs connection w)) = db_connections w
    \<and> session_schemas (snd (connect_database bs connection w)) = session_schemas w"
proof -
  from assms consider
      (pg) "strip (lower (dbtype connection)) = ''postgresql''"
        "pg_call_fails (postgresql bs) connection"
    | (my) "strip (lower (dbtype connection)) = ''mysql''"
        "my_call_fails (mysql bs) connection"
    | (mg) "strip (lower (dbtype connection)) = ''mongodb''"
        "mg_call_fails (mongodb bs) connection"
    unfolding driver_call_fails_def by blast
  then have "strip (lower (dbtype connection)) \<in> {''postgresql'', ''mysql'', ''mongodb''}
    \<and> (\<exists>m. fst (connect_database bs connection w) = Inl (HTTPException 500 m)
    \<and> snd (connect_database bs connection w) = attempt w)"
  proof cases
    case pg
    with pg_failure [of "postgresql bs" connection w] show ?thesis
      by (simp add: connect_database_def case_prod_unfold Let_def)
  next
    case my
    with my_failure [of "mysql bs" connection w] show ?thesis
      by (simp add: connect_database_def case_prod_unfold Let_def)
  next
    case mg
    with mg_failure [of "mongodb bs" connection w] show ?thesis
      by (simp add: connect_database_def case_prod_unfold Let_def)
  qed
  then show ?thesis by (auto simp add: attempt_def)
qed

lemmas broken_defs = broken_backends_def broken_pg_def unreachable_mongo_def

theorem connect_database_backend_error_witness:
  "driver_call_fails broken_backends pg_request
   \<and> pg_fetch_columns (postgresql broken_backends) ''public'' ''users'' =
        Inl (PostgresError ''permission denied'')
   \<and> fst (connect_database broken_backends pg_request world1) =
        Inl (HTTPException 500 ''PostgreSQL error: permission denied'')
   \<and> db_connections (snd (connect_database broken_backends pg_request world1)) = db_connections world1
   \<and> session_schemas (snd (connect_database broken_backends pg_request world1)) = session_schemas world1
   \<and> driver_call_fails (demo_backends\<lparr>mongodb := unreachable_mongo\<rparr>) mongo_request
   \<and> mg_server_info unreachable_mongo = Inl (OtherError ''localhost:27017: connection refused'')
   \<and> fst (connect_database (demo_backends\<lparr>mongodb := unreachable_mongo\<rparr>) mongo_request world1) =
        Inl (HTTPException 500
          ''MongoDB connection error: localhost:27017: connection refused'')
   \<and> db_connections (snd (connect_database (demo_backends\<lparr>mongodb := unreachable_mongo\<rparr>)
        mongo_request world1)) = db_connections world1
   \<and> session_schemas (snd (connect_database (demo_backends\<lparr>mongodb := unreachable_mongo\<rparr>)
        mongo_request world1)) = session_schemas world1"
proof -
  have f1: "driver_call_fails broken_backends pg_request"
    by (simp add: driver_call_fails_def pg_call_fails_def fixture_defs broken_defs str_eval)
  have f2: "driver_call_fails (demo_backends\<lparr>mongodb := unreachable_mongo\<rparr>) mongo_request"
    by (simp add: driver_call_fails_def mg_call_fails_def fixture_defs broken_defs str_eval)
  have r1: "fst (connect_database broken_backends pg_request world1) =
        Inl (HTTPException 500 ''PostgreSQL error: permission denied'')"
    by (simp add: connect_eval fixture_defs broken_defs str_eval)
  have r2: "fst (connect_database (demo_backends\<lparr>mongodb := unreachable_mongo\<rparr>) mongo_request world1) =
        Inl (HTTPException 500
          ''MongoDB connection error: localhost:27017: connection refused'')"
    by (simp add: connect_eval fixture_defs broken_defs str_eval)
  have c: "pg_fetch_columns (postgresql broken_backends) ''public'' ''users'' =
        Inl (PostgresError ''permission denied'')"
    "mg_server_info unreachable_mongo = Inl (OtherError ''localhost:27017: connection refused'')"
    by (simp_all add: fixture_defs broken_defs)
  from connect_database_backend_error [OF f1, of world1]
    connect_database_backend_error [OF f2, of world1] f1 f2 r1 r2 c
  show ?thesis by simp
qed

text \<open>
  C8. Each connector makes one connection attempt and, whichever way it exits (body
  returned, \<^verbatim>\<open>HTTPException\<close> raised, other exception propagated), the connections open
  after the call are those open before it: the connection it opened has been closed.
  The same holds for the whole \<^verbatim>\<open>connectDB\<close> call.
\<close>

theorem connectors_release_connection:
  "open_conns (snd (connect_postgresql pb connection w)) = open_conns w
   \<and> conn_attempts (snd (connect_postgresql pb connection w)) = Suc (conn_attempts w)
   \<and> open_conns (snd (connect_mysql mb connection w)) = open_conns w
   \<and> conn_attempts (snd (connect_mysql mb connection w)) = Suc (conn_attempts w)
   \<and> open_conns (snd (connect_mongodb gb connection w)) = open_conns w
   \<and> conn_attempts (snd (connect_mongodb gb connection w)) = Suc (conn_attempts w)
   \<and> open_conns (snd (connect_database bs connection w)) = open_conns w"
proof -
  have "open_conns (snd (connect_database bs connection w)) = open_conns w"
    using connect_database_outcome [of bs connection w]
    by (auto simp add: attempt_def store_session_def)
  then show ?thesis
    by (simp add: connect_postgresql_def connect_mysql_def connect_mongodb_def
          open_conn_def close_conn_def attempt_def store_session_def
        split: sum.splits)
qed

section \<open>Overriding a session schema\<close>

lemma keys_update [simp]: "keys (AList.update k v d) = insert k (keys d)"
  by (simp add: keys_def dom_update)

lemma keys_delete [simp]: "keys (AList.delete k d) = keys d - {k}"
  by (simp add: keys_def delete_keys)

lemma keys_map_of: "k \<in> keys d \<longleftrightarrow> map_of d k \<noteq> None"
  by (simp add: keys_def map_of_eq_None_iff)

lemma schema_value_parse_schema:
  assumes "is_schema_body body"
  shows "schema_value (parse_schema body) = body"
proof -
  have dict: "PDict (dict_items c) = c" if "is_dict c" for c
    using that by (cases c) (simp_all add: is_dict_def)
  have columns: "PList (map (PDict \<circ> dict_items) (list_items v)) = v" if "is_dict_list v" for v
  proof -
    from that obtain xs where v: "v = PList xs" and xs: "list_all is_dict xs"
      by (cases v) (simp_all add: is_dict_list_def)
    from xs have "map (PDict \<circ> dict_items) xs = xs"
      by (induction xs) (simp_all add: dict)
    with v show ?thesis by simp
  qed
  from assms obtain d where body: "body = PDict d"
    and d: "list_all (\<lambda>kv. is_dict_list (snd kv)) d"
    by (cases body) (simp_all add: is_schema_body_def)
  from d have "map (\<lambda>kv. (fst kv, PList (map (PDict \<circ> dict_items) (list_items (snd kv))))) d = d"
    by (induction d) (simp_all add: columns)
  with body show ?thesis
    by (simp add: schema_value_def parse_schema_def comp_def)
qed

lemma check_columns_None:
  "check_columns t i cs = None \<longleftrightarrow> list_all has_column_name cs"
  by (induction t i cs rule: check_columns.induct) (simp_all add: has_column_name_def)

lemma check_columns_Some:
  assumes "check_columns t i cs = Some e"
  shows "\<exists>k<length cs. list_all has_column_name (take k cs) \<and> \<not> has_column_name (cs ! k)
     \<and> e = HTTPException 400 (missing_name_detail (i + k) t)"
  using assms
proof (induction t i cs rule: check_columns.induct)
  case (1 table_name idx)
  then show ?case by simp
next
  case (2 table_name idx column rest)
  show ?case
  proof (cases "''column_name'' \<in> keys column")
    case False
    with 2 show ?thesis
      by (intro exI [of _ 0]) (simp add: has_column_name_def)
  next
    case True
    with 2 obtain k where "k < length rest" "list_all has_column_name (take k rest)"
      "\<not> has_column_name (rest ! k)"
      "e = HTTPException 400 (missing_name_detail (Suc idx + k) table_name)"
      by auto
    moreover from True have "has_column_name column"
      by (simp add: has_column_name_def)
    ultimately show ?thesis
      by (intro exI [of _ "Suc k"]) simp
  qed
qed

lemma check_schema_None:
  "check_schema s = None \<longleftrightarrow> well_shaped s"
proof (induction s rule: check_schema.induct)
  case 1
  then show ?case by (simp add: well_shaped_def)
next
  case (2 table_name columns rest)
  then show ?case
    using check_columns_None [of table_name 0 columns]
    by (cases "check_columns table_name 0 columns") (simp_all add: well_shaped_def)
qed

lemma rejects_Cons:
  assumes "rejects rest detail" "list_all has_column_name columns"
  shows "rejects ((table_name, columns) # rest) detail"
proof -
  from assms(1) obtain pre t cs post idx where *:
    "rest = pre @ (t, cs) # post" "well_shaped pre" "idx < length cs"
    "list_all has_column_name (take idx cs)" "\<not> has_column_name (cs ! idx)"
    "detail = missing_name_detail idx t"
    unfolding rejects_def by blast
  have "(table_name, columns) # rest = ((table_name, columns) # pre) @ (t, cs) # post"
    using *(1) by simp
  moreover have "well_shaped ((table_name, columns) # pre)"
    using *(2) assms(2) by (simp add: well_shaped_def)
  ultimately show ?thesis
    unfolding rejects_def using *(3-6) by blast
qed

lemma check_schema_Some:
  assumes "check_schema s = Some e"
  shows "\<exists>detail. e = HTTPException 400 detail \<and> rejects s detail"
  using assms
proof (induction s rule: check_schema.induct)
  case 1
  then show ?case by simp
next
  case (2 table_name columns rest)
  show ?case
  proof (cases "check_columns table_name 0 columns")
    case None
    with 2 obtain detail where "e = HTTPException 400 detail" "rejects rest detail"
      by auto
    moreover from None have "list_all has_column_name columns"
      by (simp add: check_columns_None)
    ultimately show ?thesis
      using rejects_Cons by blast
  next
    case (Some e')
    with 2 have "e' = e" by simp
    with check_columns_Some [OF Some] obtain k where k:
      "k < length columns" "list_all has_column_name (take k columns)"
      "\<not> has_column_name (columns ! k)"
      "e = HTTPException 400 (missing_name_detail k table_name)"
      by auto
    have "(table_name, columns) # rest = [] @ (table_name, columns) # rest" "well_shaped []"
      by (simp_all add: well_shaped_def)
    with k have "rejects ((table_name, columns) # rest) (missing_name_detail k table_name)"
      unfolding rejects_def by blast
    with k(4) show ?thesis by blast
  qed
qed

lemmas registry_eval =
  post_setsessionSchema_def set_session_schema_def get_session_schema_def delete_session_def
  is_schema_body_def is_dict_list_def is_dict_def parse_schema_def schema_value_def keys_def
  missing_name_detail_def world1_def world2_def good_body_def bad_body_def untyped_body_def

text \<open>
  C3, as stated, fails. The session \<^verbatim>\<open>localhost:5432:mydatabase\<close> exists and the body
  \<^verbatim>\<open>{"users": 5}\<close> gives the table \<^verbatim>\<open>users\<close> a value that is not a list, yet the answer has
  status 422, not 400: the body does not validate against the annotation of the
  handler, which is not called. For the same reason the same body sent for the
  unknown session \<^verbatim>\<open>localhost:5432:other\<close> is not answered with 404.
\<close>

theorem set_session_schema_unprocessable:
  "''localhost:5432:mydatabase'' \<in> keys (db_connections world1)
   \<and> item untyped_body ''users'' = Some (PInt 5)
   \<and> post_setsessionSchema ''localhost:5432:mydatabase'' untyped_body world1 =
       (Unprocessable, world1)
   \<and> status_code (fst (post_setsessionSchema ''localhost:5432:mydatabase'' untyped_body world1))
       = 422
   \<and> status_code (fst (post_setsessionSchema ''localhost:5432:mydatabase'' untyped_body world1))
       \<noteq> 400
   \<and> ''localhost:5432:other'' \<notin> keys (db_connections world1)
   \<and> status_code (fst (post_setsessionSchema ''localhost:5432:other'' untyped_body world1))
       \<noteq> 404"
  by (simp add: registry_eval item_def)

text \<open>
  C3, amended. A body that is not an object whose values are arrays of objects is
  answered with status 422, whatever the session id, and changes nothing. For a body of
  that type, \<^verbatim>\<open>setsessionSchema\<close> raises \<^verbatim>\<open>HTTPException(404)\<close> when the session id is not a
  key of \<^verbatim>\<open>db_connections\<close>; for a known session it raises \<^verbatim>\<open>HTTPException(400)\<close> whenever
  some column entry has no \<^verbatim>\<open>column_name\<close>, with a detail that names the table and the
  index of the first such entry (\<open>rejects\<close>); in both cases the state is unchanged. Only
  when every column entry of every table has \<^verbatim>\<open>column_name\<close> does it return, and then the
  session's schema has been replaced by the body.
\<close>

theorem set_session_schema_validation:
  "(\<not> is_schema_body body \<longrightarrow>
      post_setsessionSchema session_id body w = (Unprocessable, w)
      \<and> status_code (fst (post_setsessionSchema session_id body w)) = 422)
   \<and> (is_schema_body body \<and> session_id \<notin> keys (db_connections w) \<longrightarrow>
      post_setsessionSchema session_id body w =
        (Handled (Inl (HTTPException 404
           ''Session not found. Please connect to database first.'')), w))
   \<and> (is_schema_body body \<and> session_id \<in> keys (db_connections w)
        \<and> \<not> well_shaped (parse_schema body) \<longrightarrow>
      (\<exists>detail. post_setsessionSchema session_id body w =
           (Handled (Inl (HTTPException 400 detail)), w)
         \<and> rejects (parse_schema body) detail))
   \<and> (is_schema_body body \<and> session_id \<in> keys (db_connections w)
        \<and> well_shaped (parse_schema body) \<longrightarrow>
      (\<exists>response. post_setsessionSchema session_id body w =
         (Handled (Inr response),
          w\<lparr>session_schemas := AList.update session_id body (session_schemas w)\<rparr>)))"
proof (intro conjI impI)
  assume "\<not> is_schema_body body"
  then show "post_setsessionSchema session_id body w = (Unprocessable, w)"
    and "status_code (fst (post_setsessionSchema session_id body w)) = 422"
    by (simp_all add: post_setsessionSchema_def)
next
  assume "is_schema_body body \<and> session_id \<notin> keys (db_connections w)"
  then show "post_setsessionSchema session_id body w =
        (Handled (Inl (HTTPException 404
           ''Session not found. Please connect to database first.'')), w)"
    by (simp add: post_setsessionSchema_def set_session_schema_def)
next
  assume a: "is_schema_body body \<and> session_id \<in> keys (db_connections w)
        \<and> \<not> well_shaped (parse_schema body)"
  then obtain e where e: "check_schema (parse_schema body) = Some e"
    using check_schema_None [of "parse_schema body"]
    by (cases "check_schema (parse_schema body)") auto
  from check_schema_Some [OF e] obtain detail where
    "e = HTTPException 400 detail" "rejects (parse_schema body) detail" by blast
  with a e show "\<exists>detail. post_setsessionSchema session_id body w =
           (Handled (Inl (HTTPException 400 detail)), w)
         \<and> rejects (parse_schema body) detail"
    by (auto simp add: post_setsessionSchema_def set_session_schema_def)
next
  assume a: "is_schema_body body \<and> session_id \<in> keys (db_connections w)
        \<and> well_shaped (parse_schema body)"
  then have "check_schema (parse_schema body) = None"
    by (simp add: check_schema_None)
  with a show "\<exists>response. post_setsessionSchema session_id body w =
         (Handled (Inr response),
          w\<lparr>session_schemas := AList.update session_id body (session_schemas w)\<rparr>)"
    by (simp add: post_setsessionSchema_def set_session_schema_def schema_value_parse_schema)
qed


theorem set_session_schema_validation_witness:
  "\<not> is_schema_body untyped_body
   \<and> post_setsessionSchema ''localhost:5432:mydatabase'' untyped_body world1 =
       (Unprocessable, world1)
   \<and> is_schema_body good_body \<and> is_schema_body bad_body
   \<and> post_setsessionSchema ''localhost:5432:other'' good_body world1 =
       (Handled (Inl (HTTPException 404
          ''Session not found. Please connect to database first.'')), world1)
   \<and> \<not> well_shaped (parse_schema bad_body)
   \<and> post_setsessionSchema ''localhost:5432:mydatabase'' bad_body world1 =
       (Handled (Inl (HTTPException 400
          (''Missing '' @ [CHR 0x27] @ ''column_name'' @ [CHR 0x27]
             @ '' in column at index 1 in table users''))), world1)
   \<and> rejects (parse_schema bad_body)
        (''Missing '' @ [CHR 0x27] @ ''column_name'' @ [CHR 0x27]
           @ '' in column at index 1 in table users'')
   \<and> well_shaped (parse_schema good_body)
   \<and> snd (post_setsessionSchema ''localhost:5432:mydatabase'' good_body world1) =
       world1\<lparr>session_schemas := [(''localhost:5432:mydatabase'', good_body)]\<rparr>"
proof -
  have absent: "''localhost:5432:other'' \<notin> keys (db_connections world1)"
    and present: "''localhost:5432:mydatabase'' \<in> keys (db_connections world1)"
    by (simp_all add: world1_def keys_def)
  have typed: "\<not> is_schema_body untyped_body" "is_schema_body good_body"
    "is_schema_body bad_body"
    by (simp_all add: registry_eval)
  have shaped: "\<not> well_shaped (parse_schema bad_body)" "well_shaped (parse_schema good_body)"
    by (simp_all add: well_shaped_def has_column_name_def registry_eval)
  have ev: "post_setsessionSchema ''localhost:5432:mydatabase'' bad_body world1 =
       (Handled (Inl (HTTPException 400
          (''Missing '' @ [CHR 0x27] @ ''column_name'' @ [CHR 0x27]
             @ '' in column at index 1 in table users''))), world1)"
    by (simp add: registry_eval str_eval)
  from set_session_schema_validation [of untyped_body "''localhost:5432:mydatabase''" world1]
    typed(1)
  have 1: "post_setsessionSchema ''localhost:5432:mydatabase'' untyped_body world1 =
       (Unprocessable, world1)"
    by blast
  from set_session_schema_validation [of good_body "''localhost:5432:other''" world1]
    typed(2) absent
  have 2: "post_setsessionSchema ''localhost:5432:other'' good_body world1 =
       (Handled (Inl (HTTPException 404
          ''Session not found. Please connect to database first.'')), world1)"
    by blast
  from set_session_schema_validation [of bad_body "''localhost:5432:mydatabase''" world1]
    typed(3) present shaped(1) ev
  have 3: "rejects (parse_schema bad_body)
        (''Missing '' @ [CHR 0x27] @ ''column_name'' @ [CHR 0x27]
           @ '' in column at index 1 in table users'')"
    by auto
  from set_session_schema_validation [of good_body "''localhost:5432:mydatabase''" world1]
    typed(2) present shaped(2)
  have 4: "snd (post_setsessionSchema ''localhost:5432:mydatabase'' good_body world1) =
       world1\<lparr>session_schemas := [(''localhost:5432:mydatabase'', good_body)]\<rparr>"
    by (auto simp add: world1_def)
  from 1 2 3 4 typed shaped ev show ?thesis by blast
qed

text \<open>
  C4. When \<^verbatim>\<open>set_session_schema\<close> returns, the schema stored for the session is the
  submitted mapping itself, not a merge with what was stored before: a following
  \<^verbatim>\<open>GET /session/{id}/schema\<close> answers with exactly that mapping as \<^verbatim>\<open>schema\<close>, so it has no
  table or column of the earlier schema that was not submitted again. The connection
  parameters and the schemas of other sessions are untouched. In terms of the request:
  for the body that validated to the mapping, what is stored and returned is the body.
\<close>

theorem set_session_schema_replaces:
  assumes "set_session_schema session_id s w = (Inr response, w')"
  shows "map_of (session_schemas w') session_id = Some (schema_value s)
     \<and> (\<exists>answer. get_session_schema session_id w' = Inr answer
           \<and> item answer ''session_id'' = Some (PStr session_id)
           \<and> item answer ''schema'' = Some (schema_value s))
     \<and> db_connections w' = db_connections w
     \<and> (\<forall>other. other \<noteq> session_id \<longrightarrow>
           map_of (session_schemas w') other = map_of (session_schemas w) other)
     \<and> (\<forall>body. is_schema_body body \<and> parse_schema body = s \<longrightarrow>
           post_setsessionSchema session_id body w = (Handled (Inr response), w')
           \<and> map_of (session_schemas w') session_id = Some body
           \<and> (\<exists>answer. get_session_schema session_id w' = Inr answer
                 \<and> item answer ''schema'' = Some body))"
proof -
  from assms have known: "session_id \<in> keys (db_connections w)"
    and w': "w' = w\<lparr>session_schemas :=
        AList.update session_id (schema_value s) (session_schemas w)\<rparr>"
    by (auto simp add: set_session_schema_def split: if_splits option.splits)
  from known obtain details where "map_of (db_connections w) session_id = Some details"
    by (auto simp add: keys_map_of)
  then have stored: "map_of (session_schemas w') session_id = Some (schema_value s)"
    and got: "\<exists>answer. get_session_schema session_id w' = Inr answer
           \<and> item answer ''session_id'' = Some (PStr session_id)
           \<and> item answer ''schema'' = Some (schema_value s)"
    and rest: "db_connections w' = db_connections w"
      "\<forall>other. other \<noteq> session_id \<longrightarrow>
           map_of (session_schemas w') other = map_of (session_schemas w) other"
    by (simp_all add: w' get_session_schema_def update_conv' item_def)
  have "post_setsessionSchema session_id body w = (Handled (Inr response), w')
           \<and> map_of (session_schemas w') session_id = Some body
           \<and> (\<exists>answer. get_session_schema session_id w' = Inr answer
                 \<and> item answer ''schema'' = Some body)"
    if "is_schema_body body \<and> parse_schema body = s" for body
  proof -
    from that have "schema_value s = body"
      using schema_value_parse_schema by blast
    with that assms stored got show ?thesis
      by (auto simp add: post_setsessionSchema_def)
  qed
  with stored got rest show ?thesis by blast
qed

theorem set_session_schema_replaces_witness:
  "set_session_schema ''localhost:5432:mydatabase'' (parse_schema good_body) world1 =
     (Inr (PDict
        [(''status'', PStr ''success''),
         (''message'', PStr ''Session schema set successfully''),
         (''session_id'', PStr ''localhost:5432:mydatabase''),
         (''tables'', PList [PStr ''users'', PStr ''products''])]),
      world1\<lparr>session_schemas := [(''localhost:5432:mydatabase'', good_body)]\<rparr>)
   \<and> is_schema_body good_body
   \<and> post_setsessionSchema ''localhost:5432:mydatabase'' good_body world1 =
     (Handled (Inr (PDict
        [(''status'', PStr ''success''),
         (''message'', PStr ''Session schema set successfully''),
         (''session_id'', PStr ''localhost:5432:mydatabase''),
         (''tables'', PList [PStr ''users'', PStr ''products''])])),
      world1\<lparr>session_schemas := [(''localhost:5432:mydatabase'', good_body)]\<rparr>)
   \<and> map_of (session_schemas world1) ''localhost:5432:mydatabase'' = Some (PDict demo_pg_info)
   \<and> get_session_schema ''localhost:5432:mydatabase''
        (world1\<lparr>session_schemas := [(''localhost:5432:mydatabase'', good_body)]\<rparr>) =
      Inr (PDict
        [(''session_id'', PStr ''localhost:5432:mydatabase''),
         (''schema'', good_body),
         (''connection_info'', PDict
            [(''dbtype'', PStr ''PostgreSQL''), (''host'', PStr ''localhost''),
             (''schema'', PStr ''mydatabase'')])])"
proof -
  have call: "set_session_schema ''localhost:5432:mydatabase'' (parse_schema good_body) world1 =
     (Inr (PDict
        [(''status'', PStr ''success''),
         (''message'', PStr ''Session schema set successfully''),
         (''session_id'', PStr ''localhost:5432:mydatabase''),
         (''tables'', PList [PStr ''users'', PStr ''products''])]),
      world1\<lparr>session_schemas := [(''localhost:5432:mydatabase'', good_body)]\<rparr>)"
    by (simp add: registry_eval)
  have typed: "is_schema_body good_body"
    by (simp add: registry_eval)
  from set_session_schema_replaces [OF call] typed
  have "post_setsessionSchema ''localhost:5432:mydatabase'' good_body world1 =
     (Handled (Inr (PDict
        [(''status'', PStr ''success''),
         (''message'', PStr ''Session schema set successfully''),
         (''session_id'', PStr ''localhost:5432:mydatabase''),
         (''tables'', PList [PStr ''users'', PStr ''products''])])),
      world1\<lparr>session_schemas := [(''localhost:5432:mydatabase'', good_body)]\<rparr>)"
    by blast
  with call typed show ?thesis
    by (simp add: get_session_schema_def world1_def pg_request_def)
qed

section \<open>Deleting a session\<close>

lemma handle_keeps_sessions:
  assumes "\<not> is_connect r"
  shows "keys (db_connections (snd (handle r w))) \<subseteq> keys (db_connections w)"
  using assms
  by (cases r)
     (auto simp add: post_setsessionSchema_def set_session_schema_def delete_session_def
        case_prod_unfold split: option.splits)

lemma serve_keeps_sessions:
  assumes "\<not> list_ex is_connect rs"
  shows "keys (db_connections (serve rs w)) \<subseteq> keys (db_connections w)"
  using assms
proof (induction rs arbitrary: w)
  case Nil
  then show ?case by simp
next
  case (Cons r rs)
  then have "keys (db_connections (serve rs (snd (handle r w))))
      \<subseteq> keys (db_connections (snd (handle r w)))"
    by simp
  also have "\<dots> \<subseteq> keys (db_connections w)"
    using Cons.prems by (simp add: handle_keeps_sessions)
  finally show ?case by simp
qed

lemma get_session_schema_unknown:
  "session_id \<notin> keys (db_connections w) \<Longrightarrow>
     get_session_schema session_id w = Inl (HTTPException 404 ''Session not found'')"
  by (simp add: get_session_schema_def keys_map_of)

text \<open>
  C9. \<^verbatim>\<open>DELETE /session/{id}\<close> raises \<^verbatim>\<open>HTTPException(404)\<close> for an id that is not a key of
  \<^verbatim>\<open>db_connections\<close> and changes nothing. For a known id it returns, and the id is then a
  key of neither dict: a following \<^verbatim>\<open>GET /session/{id}/schema\<close> and a second \<^verbatim>\<open>DELETE\<close>
  raise 404, and they still do after any sequence of requests that has no \<^verbatim>\<open>connectDB\<close>
  in it.
\<close>

theorem delete_session_removes:
  "(session_id \<notin> keys (db_connections w) \<longrightarrow>
      delete_session session_id w = (Inl (HTTPException 404 ''Session not found''), w))
   \<and> (session_id \<in> keys (db_connections w) \<longrightarrow>
       (let w' = snd (delete_session session_id w) in
        (\<exists>body. fst (delete_session session_id w) = Inr body)
        \<and> session_id \<notin> keys (db_connections w')
        \<and> session_id \<notin> keys (session_schemas w')
        \<and> get_session_schema session_id w' = Inl (HTTPException 404 ''Session not found'')
        \<and> delete_session session_id w' = (Inl (HTTPException 404 ''Session not found''), w')
        \<and> (\<forall>rs. \<not> list_ex is_connect rs \<longrightarrow>
              get_session_schema session_id (serve rs w') =
                Inl (HTTPException 404 ''Session not found'')
              \<and> fst (delete_session session_id (serve rs w')) =
                Inl (HTTPException 404 ''Session not found''))))"
proof (intro conjI impI)
  assume "session_id \<notin> keys (db_connections w)"
  then show "delete_session session_id w = (Inl (HTTPException 404 ''Session not found''), w)"
    by (simp add: delete_session_def)
next
  assume known: "session_id \<in> keys (db_connections w)"
  define w' where "w' = snd (delete_session session_id w)"
  have gone: "session_id \<notin> keys (db_connections w')" "session_id \<notin> keys (session_schemas w')"
    using known by (simp_all add: w'_def delete_session_def)
  have later: "session_id \<notin> keys (db_connections (serve rs w'))"
    if "\<not> list_ex is_connect rs" for rs
    using serve_keeps_sessions [OF that, of w'] gone(1) by blast
  have "\<exists>body. fst (delete_session session_id w) = Inr body"
    using known by (simp add: delete_session_def)
  moreover have "get_session_schema session_id w' = Inl (HTTPException 404 ''Session not found'')"
    using gone(1) by (rule get_session_schema_unknown)
  moreover have "delete_session session_id w' = (Inl (HTTPException 404 ''Session not found''), w')"
    using gone(1) by (simp add: delete_session_def)
  moreover have "get_session_schema session_id (serve rs w') =
                Inl (HTTPException 404 ''Session not found'')
              \<and> fst (delete_session session_id (serve rs w')) =
                Inl (HTTPException 404 ''Session not found'')"
    if "\<not> list_ex is_connect rs" for rs
    using later [OF that] by (simp add: get_session_schema_unknown delete_session_def)
  ultimately show "let w' = snd (delete_session session_id w) in
        (\<exists>body. fst (delete_session session_id w) = Inr body)
        \<and> session_id \<notin> keys (db_connections w')
        \<and> session_id \<notin> keys (session_schemas w')
        \<and> get_session_schema session_id w' = Inl (HTTPException 404 ''Session not found'')
        \<and> delete_session session_id w' = (Inl (HTTPException 404 ''Session not found''), w')
        \<and> (\<forall>rs. \<not> list_ex is_connect rs \<longrightarrow>
              get_session_schema session_id (serve rs w') =
                Inl (HTTPException 404 ''Session not found'')
              \<and> fst (delete_session session_id (serve rs w')) =
                Inl (HTTPException 404 ''Session not found''))"
    using gone unfolding Let_def w'_def by blast
qed


theorem delete_session_removes_witness:
  "delete_session ''localhost:5432:other'' world1 =
     (Inl (HTTPException 404 ''Session not found''), world1)
   \<and> delete_session ''localhost:5432:mydatabase'' world1 =
     (Inr (PDict
        [(''status'', PStr ''success''),
         (''message'', PStr ''Session localhost:5432:mydatabase deleted successfully'')]),
      emptied)
   \<and> get_session_schema ''localhost:5432:mydatabase'' emptied =
        Inl (HTTPException 404 ''Session not found'')
   \<and> get_session_schema ''localhost:5432:mydatabase''
        (serve [SetSessionSchema ''localhost:5432:mydatabase'' good_body, GetSessions,
                GetSessionSchema ''localhost:5432:mydatabase''] emptied) =
        Inl (HTTPException 404 ''Session not found'')"
proof -
  have absent: "''localhost:5432:other'' \<notin> keys (db_connections world1)"
    and present: "''localhost:5432:mydatabase'' \<in> keys (db_connections world1)"
    by (simp_all add: world1_def keys_def)
  have call: "delete_session ''localhost:5432:mydatabase'' world1 =
     (Inr (PDict
        [(''status'', PStr ''success''),
         (''message'', PStr ''Session localhost:5432:mydatabase deleted successfully'')]),
      emptied)"
    by (simp add: registry_eval emptied_def)
  have quiet: "\<not> list_ex is_connect
      [SetSessionSchema ''localhost:5432:mydatabase'' good_body, GetSessions,
       GetSessionSchema ''localhost:5432:mydatabase'']"
    by simp
  from delete_session_removes [of "''localhost:5432:other''" world1] absent
  have 1: "delete_session ''localhost:5432:other'' world1 =
     (Inl (HTTPException 404 ''Session not found''), world1)"
    by blast
  from delete_session_removes [of "''localhost:5432:mydatabase''" world1] present quiet
  have 2: "get_session_schema ''localhost:5432:mydatabase'' emptied =
        Inl (HTTPException 404 ''Session not found'')"
    and 3: "get_session_schema ''localhost:5432:mydatabase''
        (serve [SetSessionSchema ''localhost:5432:mydatabase'' good_body, GetSessions,
                GetSessionSchema ''localhost:5432:mydatabase''] emptied) =
        Inl (HTTPException 404 ''Session not found'')"
    unfolding Let_def call snd_conv by blast+
  from 1 2 3 call show ?thesis by blast
qed


section \<open>The registry invariant\<close>

lemma handle_keys_agree:
  assumes "keys_agree w"
  shows "keys_agree (snd (handle r w))"
proof (cases r)
  case (ConnectDB bs connection)
  with assms connect_database_outcome [of bs connection w] show ?thesis
    by (auto simp add: keys_agree_def attempt_def store_session_def)
next
  case (SetSessionSchema session_id s)
  with assms show ?thesis
    by (auto simp add: keys_agree_def post_setsessionSchema_def set_session_schema_def
          split: option.splits)
next
  case (DeleteSession session_id)
  with assms show ?thesis
    by (auto simp add: keys_agree_def delete_session_def)
qed (use assms in simp_all)

lemma serve_keys_agree:
  assumes "keys_agree w"
  shows "keys_agree (serve rs w)"
  using assms by (induction rs arbitrary: w) (simp_all add: handle_keys_agree)

text \<open>
  C10. In every state reached from the empty registry by requests to the endpoints
  (\<^verbatim>\<open>connectDB\<close>, \<^verbatim>\<open>setsessionSchema\<close>, \<^verbatim>\<open>DELETE\<close> and the two reading ones, in any order
  and with any backend behaviour), \<^verbatim>\<open>db_connections\<close> and \<^verbatim>\<open>session_schemas\<close> have the same
  keys. Hence every entry of \<^verbatim>\<open>session_details\<close> in \<^verbatim>\<open>GET /sessions\<close> has
  \<^verbatim>\<open>has_schema_defined\<close> true, and \<^verbatim>\<open>GET /session/{id}/schema\<close> never raises the 404
  \<^verbatim>\<open>Session schema not defined\<close>.
\<close>

theorem registry_keys_agree:
  "keys (db_connections (serve rs initial_world)) = keys (session_schemas (serve rs initial_world))
   \<and> (\<exists>details. item (get_active_sessions (serve rs initial_world)) ''session_details'' =
          Some (PList details)
        \<and> list_all (\<lambda>d. item d ''has_schema_defined'' = Some (PBool True)) details)
   \<and> get_session_schema session_id (serve rs initial_world) \<noteq>
        Inl (HTTPException 404 ''Session schema not defined'')"
proof -
  define w where "w = serve rs initial_world"
  have "keys_agree initial_world"
    by (simp add: keys_agree_def initial_world_def keys_def)
  then have "keys_agree w"
    unfolding w_def by (rule serve_keys_agree)
  then have agree: "keys (db_connections w) = keys (session_schemas w)"
    by (simp add: keys_agree_def)
  have "list_all (\<lambda>d. item d ''has_schema_defined'' = Some (PBool True)) (session_details w)"
    using agree
    by (auto simp add: session_details_def session_detail_def item_def list_all_iff keys_def)
  then have "\<exists>details. item (get_active_sessions w) ''session_details'' = Some (PList details)
        \<and> list_all (\<lambda>d. item d ''has_schema_defined'' = Some (PBool True)) details"
    by (simp add: get_active_sessions_def item_def)
  moreover have "get_session_schema session_id w \<noteq>
        Inl (HTTPException 404 ''Session schema not defined'')"
  proof (cases "map_of (db_connections w) session_id")
    case None
    then show ?thesis by (simp add: get_session_schema_def)
  next
    case (Some details)
    then have "session_id \<in> keys (db_connections w)"
      by (simp add: keys_map_of)
    then have "session_id \<in> keys (session_schemas w)"
      using agree by simp
    then obtain sch where "map_of (session_schemas w) session_id = Some sch"
      by (auto simp add: keys_map_of)
    with Some show ?thesis by (simp add: get_session_schema_def)
  qed
  ultimately show ?thesis
    using agree unfolding w_def by blast
qed


theorem registry_keys_agree_witness:
  "keys (db_connections (serve demo_run initial_world)) = {''localhost:27017:mydb''}
   \<and> keys (session_schemas (serve demo_run initial_world)) = {''localhost:27017:mydb''}
   \<and> get_session_schema ''localhost:27017:mydb'' (serve demo_run initial_world) \<noteq>
        Inl (HTTPException 404 ''Session schema not defined'')"
proof -
  have "map fst (db_connections (serve demo_run initial_world)) = [''localhost:27017:mydb'']"
    by (simp add: demo_run_def connect_eval fixture_defs broken_backends_def broken_pg_def
          registry_eval str_eval)
  then have "keys (db_connections (serve demo_run initial_world)) = {''localhost:27017:mydb''}"
    by (simp add: keys_def)
  with registry_keys_agree [of demo_run "''localhost:27017:mydb''"] show ?thesis
    by simp
qed

section \<open>Schema normalisation\<close>

lemma mg_collections_loop_result:
  assumes "mg_collections_loop b names acc = Inr table_info"
  shows "keys table_info = keys acc \<union> set names
    \<and> (distinct (map fst acc) \<longrightarrow> distinct (map fst table_info))
    \<and> (distinct names \<and> set names \<inter> keys acc = {} \<longrightarrow> map fst table_info = map fst acc @ names)
    \<and> (\<forall>name. name \<notin> set names \<longrightarrow> map_of table_info name = map_of acc name)
    \<and> (\<forall>name\<in>set names. \<exists>sample_doc. mg_find_one b name = Inr sample_doc
          \<and> map_of table_info name = Some (PList (sample_columns sample_doc)))"
  using assms
proof (induction names arbitrary: acc)
  case Nil
  then show ?case by simp
next
  case (Cons n rest)
  from Cons.prems obtain doc where doc: "mg_find_one b n = Inr doc"
    and rest: "mg_collections_loop b rest
        (AList.update n (PList (sample_columns doc)) acc) = Inr table_info"
    by (auto split: sum.splits)
  note ih = Cons.IH [OF rest]
  have k: "keys table_info = keys acc \<union> set (n # rest)"
    using ih by auto
  have d: "distinct (map fst acc) \<longrightarrow> distinct (map fst table_info)"
    using ih by (simp add: distinct_update)
  have o: "distinct (n # rest) \<and> set (n # rest) \<inter> keys acc = {} \<longrightarrow>
      map fst table_info = map fst acc @ n # rest"
    using ih by (auto simp add: update_keys keys_def)
  have u: "\<forall>name. name \<notin> set (n # rest) \<longrightarrow> map_of table_info name = map_of acc name"
    using ih by (simp add: update_conv')
  have f: "\<forall>name\<in>set (n # rest). \<exists>sample_doc. mg_find_one b name = Inr sample_doc
          \<and> map_of table_info name = Some (PList (sample_columns sample_doc))"
  proof
    fix name assume "name \<in> set (n # rest)"
    show "\<exists>sample_doc. mg_find_one b name = Inr sample_doc
          \<and> map_of table_info name = Some (PList (sample_columns sample_doc))"
    proof (cases "name \<in> set rest")
      case True
      with ih show ?thesis by blast
    next
      case False
      with \<open>name \<in> set (n # rest)\<close> have "name = n" by simp
      moreover from False ih have "map_of table_info name =
          map_of (AList.update n (PList (sample_columns doc)) acc) name"
        by blast
      ultimately show ?thesis
        using doc by (simp add: update_conv')
    qed
  qed
  from k d o u f show ?case by blast
qed

lemma sample_columns_eq:
  "sample_columns sample_doc =
     (case sample_doc of None \<Rightarrow> [] | Some doc \<Rightarrow> map field_descriptor doc)"
  by (cases sample_doc) (simp_all add: sample_columns_def)

text \<open>
  C5. When the MongoDB connector returns, its \<^verbatim>\<open>schema_info\<close> has exactly one entry for
  each collection name listed by the server (in the listed order when the names are
  distinct). The entry of a collection whose \<^verbatim>\<open>find_one\<close> gave no document is the empty
  list, and the call still succeeds; the entry of a collection with a sampled document
  has one descriptor per key of the document, in the document's order, with
  \<^verbatim>\<open>data_type\<close> the type name of the sampled value, \<^verbatim>\<open>is_nullable\<close> \<^verbatim>\<open>"YES"\<close>, and
  \<^verbatim>\<open>default_value\<close> and \<^verbatim>\<open>max_length\<close> \<^verbatim>\<open>None\<close>.
\<close>

theorem connect_mongodb_schema_map:
  assumes "connect_mongodb b connection w = (Inr body, w')"
  shows "\<exists>names table_info.
      mg_list_collection_names b = Inr names
    \<and> item body ''schema_info'' = Some (PDict table_info)
    \<and> distinct (map fst table_info) \<and> set (map fst table_info) = set names
    \<and> (distinct names \<longrightarrow> map fst table_info = names)
    \<and> (\<forall>name\<in>set names. \<exists>sample_doc. mg_find_one b name = Inr sample_doc
          \<and> map_of table_info name = Some (PList
               (case sample_doc of
                  None \<Rightarrow> []
                | Some doc \<Rightarrow>
                    map (\<lambda>kv. PDict
                      [(''column_name'', PStr (fst kv)),
                       (''data_type'', PStr (type_name (snd kv))),
                       (''is_nullable'', PStr ''YES''),
                       (''default_value'', PNone),
                       (''max_length'', PNone)]) doc)))"
proof -
  from assms obtain table_info where ti: "mg_table_info b connection = Inr table_info"
    and body: "body = success_body connection table_info"
    by (auto simp add: connect_mongodb_unfold split: sum.splits)
  from ti obtain names where names: "mg_list_collection_names b = Inr names"
    and loop: "mg_collections_loop b names [] = Inr table_info"
    by (auto simp add: mg_table_info_def split: sum.splits)
  have fd: "field_descriptor = (\<lambda>kv. PDict
                      [(''column_name'', PStr (fst kv)),
                       (''data_type'', PStr (type_name (snd kv))),
                       (''is_nullable'', PStr ''YES''),
                       (''default_value'', PNone),
                       (''max_length'', PNone)])"
    by (rule ext) (simp add: field_descriptor_def)
  note r = mg_collections_loop_result [OF loop, unfolded sample_columns_eq fd]
  have "item body ''schema_info'' = Some (PDict table_info)"
    by (simp add: body item_success_body)
  moreover have "distinct (map fst table_info)" "set (map fst table_info) = set names"
    "distinct names \<longrightarrow> map fst table_info = names"
    using r by (simp_all add: keys_def)
  ultimately show ?thesis
    using names r by blast
qed


theorem connect_mongodb_schema_map_witness:
  "connect_mongodb demo_mongo mongo_request initial_world =
     (Inr (success_body mongo_request demo_mongo_info), mongo_world)
   \<and> mg_list_collection_names demo_mongo = Inr [''events'', ''drafts'']
   \<and> mg_find_one demo_mongo ''events'' = Inr (Some [(''a'', PInt 1), (''b'', PStr ''x'')])
   \<and> mg_find_one demo_mongo ''drafts'' = Inr None
   \<and> map fst demo_mongo_info = [''events'', ''drafts'']
   \<and> map_of demo_mongo_info ''drafts'' = Some (PList [])
   \<and> map_of demo_mongo_info ''events'' = Some (PList
        [PDict [(''column_name'', PStr ''a''), (''data_type'', PStr ''int''),
                (''is_nullable'', PStr ''YES''), (''default_value'', PNone),
                (''max_length'', PNone)],
         PDict [(''column_name'', PStr ''b''), (''data_type'', PStr ''str''),
                (''is_nullable'', PStr ''YES''), (''default_value'', PNone),
                (''max_length'', PNone)]])"
proof -
  have call: "connect_mongodb demo_mongo mongo_request initial_world =
     (Inr (success_body mongo_request demo_mongo_info), mongo_world)"
    by (simp add: connect_eval fixture_defs str_eval demo_mongo_info_def mongo_world_def)
  have names: "mg_list_collection_names demo_mongo = Inr [''events'', ''drafts'']"
    and docs: "mg_find_one demo_mongo ''events'' = Inr (Some [(''a'', PInt 1), (''b'', PStr ''x'')])"
      "mg_find_one demo_mongo ''drafts'' = Inr None"
    by (simp_all add: demo_mongo_def)
  from connect_mongodb_schema_map [OF call] have
    "map fst demo_mongo_info = [''events'', ''drafts'']
     \<and> map_of demo_mongo_info ''drafts'' = Some (PList [])
     \<and> map_of demo_mongo_info ''events'' = Some (PList
        [PDict [(''column_name'', PStr ''a''), (''data_type'', PStr ''int''),
                (''is_nullable'', PStr ''YES''), (''default_value'', PNone),
                (''max_length'', PNone)],
         PDict [(''column_name'', PStr ''b''), (''data_type'', PStr ''str''),
                (''is_nullable'', PStr ''YES''), (''default_value'', PNone),
                (''max_length'', PNone)]])"
    by (auto simp add: names docs item_success_body)
  with call names docs show ?thesis by simp
qed


text \<open>
  C6. The relational connectors are meant to report \<^verbatim>\<open>default_value\<close> as the backend's
  default, stringified, and \<^verbatim>\<open>None\<close> only when the backend reports no default. The test
  \<^verbatim>\<open>if col['default_value']\<close> is a truth test, though, and an empty string is false: a
  MySQL column declared with \<^verbatim>\<open>DEFAULT ''\<close>, for which the backend reports the default
  \<^verbatim>\<open>''\<close>, gets \<^verbatim>\<open>default_value\<close> \<^verbatim>\<open>None\<close> in the schema that \<^verbatim>\<open>connectDB\<close> returns.
\<close>

theorem empty_default_reported_absent:
  "my_fetch_columns demo_mysql ''mydatabase'' ''items'' = Inr [label_row]
   \<and> column_default label_row = Some []
   \<and> item (column_descriptor label_row) ''default_value'' = Some PNone
   \<and> fst (connect_database demo_backends mysql_request world1) =
       Inr (PDict
         [(''status'', PStr ''success''),
          (''session_id'', PStr ''localhost:5432:mydatabase''),
          (''schema_info'', PDict
             [(''items'', PList
                [PDict [(''column_name'', PStr ''label''), (''data_type'', PStr ''varchar''),
                        (''is_nullable'', PStr ''YES''), (''default_value'', PNone),
                        (''max_length'', PInt 10)]])])])"
proof -
  have "success_body mysql_request demo_mysql_info =
       PDict
         [(''status'', PStr ''success''),
          (''session_id'', PStr ''localhost:5432:mydatabase''),
          (''schema_info'', PDict
             [(''items'', PList
                [PDict [(''column_name'', PStr ''label''), (''data_type'', PStr ''varchar''),
                        (''is_nullable'', PStr ''YES''), (''default_value'', PNone),
                        (''max_length'', PInt 10)]])])]"
    by (simp add: success_body_def make_session_id_def mysql_request_def demo_mysql_info_def
          str_eval)
  then have "fst (connect_database demo_backends mysql_request world1) =
       Inr (PDict
         [(''status'', PStr ''success''),
          (''session_id'', PStr ''localhost:5432:mydatabase''),
          (''schema_info'', PDict
             [(''items'', PList
                [PDict [(''column_name'', PStr ''label''), (''data_type'', PStr ''varchar''),
                        (''is_nullable'', PStr ''YES''), (''default_value'', PNone),
                        (''max_length'', PInt 10)]])])])"
    by (simp add: demo_mysql_call)
  then show ?thesis
    by (simp add: demo_mysql_def label_row_def column_descriptor_def item_def)
qed

end
